theory Spec2Isabelle
  imports Complex_Main "HOL-Library.Word"
begin

unbundle bit_operations_syntax

section \<open>Platform: error codes, the bus transaction port, floats\<close>

text \<open>
  \<^verbatim>\<open>esp_err_t\<close> is ESP-IDF's \<^verbatim>\<open>int32_t\<close> status code. The drivers only compare codes
  and pass them on, so it is modelled as \<open>int\<close>; the five named codes have the values of
  ESP-IDF's \<^verbatim>\<open>esp_err.h\<close>.
\<close>

type_synonym esp_err_t = int

definition ESP_OK :: esp_err_t where
  "ESP_OK = 0"

definition ESP_FAIL :: esp_err_t where
  "ESP_FAIL = - 1"

definition ESP_ERR_NO_MEM :: esp_err_t where
  "ESP_ERR_NO_MEM = 0x101"

definition ESP_ERR_INVALID_ARG :: esp_err_t where
  "ESP_ERR_INVALID_ARG = 0x102"

definition ESP_ERR_NOT_FOUND :: esp_err_t where
  "ESP_ERR_NOT_FOUND = 0x105"

text \<open>
  The bus helpers of \<^verbatim>\<open>common/i2c.h\<close> are external to the drivers. A call is recorded
  with the arguments the drivers give it (the log tag is left out):
  \<^item> \<open>priv_i2c_init scl sda freq bus\<close>
  \<^item> \<open>priv_i2c_write_byte data bus\<close>
  \<^item> \<open>priv_i2c_write_reg_byte reg data bus addr\<close>
  \<^item> \<open>priv_i2c_read_reg_bytes reg len bus addr\<close>
\<close>

datatype i2c_call =
    priv_i2c_init "8 word" "8 word" "32 word" "8 word"
  | priv_i2c_write_byte "8 word" "8 word"
  | priv_i2c_write_reg_byte "8 word" "8 word" "8 word" "8 word"
  | priv_i2c_read_reg_bytes "8 word" nat "8 word" "8 word"

text \<open>
  The hardware is an arbitrary deterministic environment: an \<open>i2c_port\<close> answers a call,
  given the calls made before it, with a status code and the contents of the caller's
  receive buffer after the call (index \<open>i\<close> is \<^verbatim>\<open>buf[i]\<close>; only reads use it).

  A trace lists the calls in the order they were made. Each entry also holds the driver's
  data structure as it was in memory when the call was made, so that statements of the form
  "the fields are written before any bus transaction" can be expressed.
\<close>

type_synonym i2c_port = "i2c_call list \<Rightarrow> i2c_call \<Rightarrow> esp_err_t \<times> (nat \<Rightarrow> 8 word)"

type_synonym 'm trace = "(i2c_call \<times> 'm) list"

definition i2c :: "i2c_port \<Rightarrow> 'm \<Rightarrow> 'm trace \<Rightarrow> i2c_call \<Rightarrow> (esp_err_t \<times> (nat \<Rightarrow> 8 word)) \<times> 'm trace" where
  "i2c port mem tr c = (port (map fst tr) c, tr @ [(c, mem)])"

text \<open>
  C \<^verbatim>\<open>float\<close> values are modelled by the real numbers they denote. Every function that
  does float arithmetic takes the rounding \<open>rnd\<close> of a real result to a float as a
  parameter, and applies it after each arithmetic operation as the C code does; theorems
  assume of \<open>rnd\<close> only what they need (monotonicity, that given values are representable).
  A conversion of a float to \<^verbatim>\<open>uint16_t\<close> truncates towards zero; for values outside
  \<open>0..65535\<close> C leaves it undefined, and the model wraps.
\<close>

definition float_to_uint16 :: "real \<Rightarrow> 16 word" where
  "float_to_uint16 x = word_of_int (if 0 \<le> x then \<lfloor>x\<rfloor> else \<lceil>x\<rceil>)"

section \<open>MPU6050 six-axis sensor (mpu6050\_hal.c)\<close>

text \<open>
  \<^verbatim>\<open>mpu6050_hal.h\<close> is not among the sources. Its enumerators are kept as names; the
  register and command values they stand for are a parameter \<open>H\<close> of every function that
  uses one. The sensor states are the six enumerators the driver assigns; their numeric values,
  which only the bit test of \<^verbatim>\<open>mpu6050_reset_on_error\<close> looks at, are a parameter \<open>V\<close>.
\<close>

datatype mpu6050_hal_name =
    k_mpu6050_pwr_mgmt_1_cmd
  | k_mpu6050_power_on_cmd
  | k_mpu6050_reset_cmd
  | k_mpu6050_smplrt_div_cmd
  | k_mpu6050_config_cmd
  | k_mpu6050_config_dlpf_44hz
  | k_mpu6050_gyro_config_cmd
  | k_mpu6050_accel_config_cmd
  | k_mpu6050_who_am_i_cmd
  | k_mpu6050_who_am_i_response
  | k_mpu6050_accel_xout_h_cmd
  | k_mpu6050_gyro_xout_h_cmd
  | k_mpu6050_accel_fs_2g
  | k_mpu6050_accel_fs_4g
  | k_mpu6050_accel_fs_8g
  | k_mpu6050_accel_fs_16g
  | k_mpu6050_gyro_fs_250dps
  | k_mpu6050_gyro_fs_500dps
  | k_mpu6050_gyro_fs_1000dps
  | k_mpu6050_gyro_fs_2000dps

type_synonym mpu6050_hal_h = "mpu6050_hal_name \<Rightarrow> 8 word"

datatype mpu6050_states_t =
    k_mpu6050_ready
  | k_mpu6050_data_updated
  | k_mpu6050_uninitialized
  | k_mpu6050_error
  | k_mpu6050_power_on_error
  | k_mpu6050_reset_error

record mpu6050_data_t =
  i2c_address :: "8 word"
  i2c_bus :: "8 word"
  accel_x :: real
  accel_y :: real
  accel_z :: real
  gyro_x :: real
  gyro_y :: real
  gyro_z :: real
  state :: mpu6050_states_t

definition mpu6050_i2c_address :: "8 word" where
  "mpu6050_i2c_address = 0x68"

definition mpu6050_i2c_bus :: "8 word" where
  "mpu6050_i2c_bus = 0"

definition mpu6050_scl_io :: "8 word" where
  "mpu6050_scl_io = 22"

definition mpu6050_sda_io :: "8 word" where
  "mpu6050_sda_io = 21"

definition mpu6050_i2c_freq_hz :: "32 word" where
  "mpu6050_i2c_freq_hz = 100000"

definition mpu6050_sample_rate_div :: "8 word" where
  "mpu6050_sample_rate_div = 9"

definition mpu6050_config_dlpf :: "mpu6050_hal_h \<Rightarrow> 8 word" where
  "mpu6050_config_dlpf H = H k_mpu6050_config_dlpf_44hz"

text \<open>
  The two configuration tables: (register value, sensitivity as written in the source), and
  the chosen rows. A sensitivity becomes a float when \<^verbatim>\<open>mpu6050_read\<close> loads it.
\<close>

definition mpu6050_accel_configs :: "mpu6050_hal_h \<Rightarrow> (8 word \<times> real) list" where
  "mpu6050_accel_configs H =
     [(H k_mpu6050_accel_fs_2g, 16384),
      (H k_mpu6050_accel_fs_4g, 8192),
      (H k_mpu6050_accel_fs_8g, 4096),
      (H k_mpu6050_accel_fs_16g, 2048)]"

definition mpu6050_gyro_configs :: "mpu6050_hal_h \<Rightarrow> (8 word \<times> real) list" where
  "mpu6050_gyro_configs H =
     [(H k_mpu6050_gyro_fs_250dps, 131),
      (H k_mpu6050_gyro_fs_500dps, 65.5),
      (H k_mpu6050_gyro_fs_1000dps, 32.8),
      (H k_mpu6050_gyro_fs_2000dps, 16.4)]"

definition mpu6050_gyro_config_idx :: nat where
  "mpu6050_gyro_config_idx = 3"

definition mpu6050_accel_config_idx :: nat where
  "mpu6050_accel_config_idx = 3"

text \<open>
  \<^verbatim>\<open>mpu6050_init\<close>: the structure is reset first, then up to nine bus calls follow; the
  first call that fails ends the function with that call's code. The calls to
  \<^verbatim>\<open>vTaskDelay\<close> and the logging are not modelled. The result is the returned code, the
  structure and the trace.
\<close>

definition mpu6050_init :: "mpu6050_hal_h \<Rightarrow> i2c_port \<Rightarrow> mpu6050_data_t \<Rightarrow> mpu6050_data_t trace
    \<Rightarrow> esp_err_t \<times> mpu6050_data_t \<times> mpu6050_data_t trace" where
  "mpu6050_init H port sensor_data tr0 =
    (let d = sensor_data\<lparr>i2c_address := mpu6050_i2c_address, i2c_bus := mpu6050_i2c_bus,
                          gyro_x := 0, gyro_y := 0, gyro_z := 0,
                          accel_x := 0, accel_y := 0, accel_z := 0,
                          state := k_mpu6050_uninitialized\<rparr>;
         ((ret, _), tr1) = i2c port d tr0
            (priv_i2c_init mpu6050_scl_io mpu6050_sda_io mpu6050_i2c_freq_hz mpu6050_i2c_bus)
     in if ret \<noteq> ESP_OK then (ret, d, tr1) else
     let ((ret, _), tr2) = i2c port d tr1
            (priv_i2c_write_reg_byte (H k_mpu6050_pwr_mgmt_1_cmd) (H k_mpu6050_power_on_cmd)
               mpu6050_i2c_bus mpu6050_i2c_address)
     in if ret \<noteq> ESP_OK then (ret, d\<lparr>state := k_mpu6050_power_on_error\<rparr>, tr2) else
     let ((ret, _), tr3) = i2c port d tr2
            (priv_i2c_write_reg_byte (H k_mpu6050_pwr_mgmt_1_cmd) (H k_mpu6050_reset_cmd)
               mpu6050_i2c_bus mpu6050_i2c_address)
     in if ret \<noteq> ESP_OK then (ret, d\<lparr>state := k_mpu6050_reset_error\<rparr>, tr3) else
     let ((ret, _), tr4) = i2c port d tr3
            (priv_i2c_write_reg_byte (H k_mpu6050_pwr_mgmt_1_cmd) (H k_mpu6050_power_on_cmd)
               mpu6050_i2c_bus mpu6050_i2c_address)
     in if ret \<noteq> ESP_OK then (ret, d\<lparr>state := k_mpu6050_power_on_error\<rparr>, tr4) else
     let ((ret, _), tr5) = i2c port d tr4
            (priv_i2c_write_reg_byte (H k_mpu6050_smplrt_div_cmd) mpu6050_sample_rate_div
               mpu6050_i2c_bus mpu6050_i2c_address)
     in if ret \<noteq> ESP_OK then (ret, d, tr5) else
     let ((ret, _), tr6) = i2c port d tr5
            (priv_i2c_write_reg_byte (H k_mpu6050_config_cmd) (mpu6050_config_dlpf H)
               mpu6050_i2c_bus mpu6050_i2c_address)
     in if ret \<noteq> ESP_OK then (ret, d, tr6) else
     let ((ret, _), tr7) = i2c port d tr6
            (priv_i2c_write_reg_byte (H k_mpu6050_gyro_config_cmd)
               (fst (mpu6050_gyro_configs H ! mpu6050_gyro_config_idx))
               mpu6050_i2c_bus mpu6050_i2c_address)
     in if ret \<noteq> ESP_OK then (ret, d, tr7) else
     let ((ret, _), tr8) = i2c port d tr7
            (priv_i2c_write_reg_byte (H k_mpu6050_accel_config_cmd)
               (fst (mpu6050_accel_configs H ! mpu6050_accel_config_idx))
               mpu6050_i2c_bus mpu6050_i2c_address)
     in if ret \<noteq> ESP_OK then (ret, d, tr8) else
     let ((ret, who_am_i), tr9) = i2c port d tr8
            (priv_i2c_read_reg_bytes (H k_mpu6050_who_am_i_cmd) 1
               mpu6050_i2c_bus mpu6050_i2c_address)
     in if ret \<noteq> ESP_OK \<or> who_am_i 0 \<noteq> H k_mpu6050_who_am_i_response then (ret, d, tr9)
        else (ESP_OK, d\<lparr>state := k_mpu6050_ready\<rparr>, tr9))"

text \<open>
  \<^verbatim>\<open>mpu6050_read\<close>. The pointer argument may be \<^verbatim>\<open>NULL\<close> (\<open>None\<close>). The raw value of an
  axis is the \<^verbatim>\<open>int16_t\<close> made of a high and a low byte.
\<close>

definition mpu6050_raw :: "8 word \<Rightarrow> 8 word \<Rightarrow> 16 word" where
  "mpu6050_raw hi lo = push_bit 8 (ucast hi) OR ucast lo"

definition mpu6050_read :: "mpu6050_hal_h \<Rightarrow> (real \<Rightarrow> real) \<Rightarrow> i2c_port \<Rightarrow> mpu6050_data_t option \<Rightarrow> mpu6050_data_t trace
    \<Rightarrow> mpu6050_data_t option \<times> mpu6050_data_t trace" where
  "mpu6050_read H rnd port sensor_data tr0 =
    (case sensor_data of
       None \<Rightarrow> (None, tr0)
     | Some d \<Rightarrow>
        let ((ret, accel_data), tr1) = i2c port d tr0
               (priv_i2c_read_reg_bytes (H k_mpu6050_accel_xout_h_cmd) 6 (i2c_bus d) (i2c_address d))
        in if ret \<noteq> ESP_OK then (Some (d\<lparr>state := k_mpu6050_error\<rparr>), tr1) else
        let ((ret, gyro_data), tr2) = i2c port d tr1
               (priv_i2c_read_reg_bytes (H k_mpu6050_gyro_xout_h_cmd) 6 (i2c_bus d) (i2c_address d))
        in if ret \<noteq> ESP_OK then (Some (d\<lparr>state := k_mpu6050_error\<rparr>), tr2) else
        let accel_x_raw = mpu6050_raw (accel_data 0) (accel_data 1);
            accel_y_raw = mpu6050_raw (accel_data 2) (accel_data 3);
            accel_z_raw = mpu6050_raw (accel_data 4) (accel_data 5);
            gyro_x_raw = mpu6050_raw (gyro_data 0) (gyro_data 1);
            gyro_y_raw = mpu6050_raw (gyro_data 2) (gyro_data 3);
            gyro_z_raw = mpu6050_raw (gyro_data 4) (gyro_data 5);
            accel_sensitivity = rnd (snd (mpu6050_accel_configs H ! mpu6050_accel_config_idx));
            gyro_sensitivity = rnd (snd (mpu6050_gyro_configs H ! mpu6050_gyro_config_idx))
        in (Some (d\<lparr>accel_x := rnd (real_of_int (sint accel_x_raw) / accel_sensitivity),
                      accel_y := rnd (real_of_int (sint accel_y_raw) / accel_sensitivity),
                      accel_z := rnd (real_of_int (sint accel_z_raw) / accel_sensitivity),
                      gyro_x := rnd (real_of_int (sint gyro_x_raw) / gyro_sensitivity),
                      gyro_y := rnd (real_of_int (sint gyro_y_raw) / gyro_sensitivity),
                      gyro_z := rnd (real_of_int (sint gyro_z_raw) / gyro_sensitivity),
                      state := k_mpu6050_data_updated\<rparr>), tr2))"

text \<open>
  \<^verbatim>\<open>mpu6050_reset_on_error\<close>: the test \<^verbatim>\<open>state & k_mpu6050_error\<close> is on the numeric
  values \<open>V\<close> of the states.
\<close>

definition mpu6050_reset_on_error :: "mpu6050_hal_h \<Rightarrow> (mpu6050_states_t \<Rightarrow> 8 word) \<Rightarrow> i2c_port
    \<Rightarrow> mpu6050_data_t \<Rightarrow> mpu6050_data_t trace \<Rightarrow> mpu6050_data_t \<times> mpu6050_data_t trace" where
  "mpu6050_reset_on_error H V port sensor_data tr0 =
    (if V (state sensor_data) AND V k_mpu6050_error \<noteq> 0 then
       (case mpu6050_init H port sensor_data tr0 of
          (ret, d, tr1) \<Rightarrow>
            if ret = ESP_OK then (d\<lparr>state := k_mpu6050_ready\<rparr>, tr1)
            else (d\<lparr>state := k_mpu6050_reset_error\<rparr>, tr1))
     else (sensor_data, tr0))"

section \<open>PCA9685 PWM controller (pca9685\_hal.c)\<close>

text \<open>
  \<^verbatim>\<open>pca9685_hal.h\<close> is not among the sources either: the values of its enumerators are
  a parameter \<open>H\<close>. The list of boards is the driver's linked list, head first
  (\<^verbatim>\<open>NULL\<close> is \<open>[]\<close>, \<^verbatim>\<open>next\<close> is the tail). The fields \<^verbatim>\<open>i2c_bus\<close> and \<^verbatim>\<open>state\<close> of
  \<^verbatim>\<open>pca9685_board_t\<close> are named \<open>board_i2c_bus\<close> and \<open>board_state\<close> here, apart from the
  sensor's; all fields hold bytes, as the values the driver stores in them are.
\<close>

datatype pca9685_hal_name =
    k_pca9685_mode1_cmd
  | k_pca9685_sleep_cmd
  | k_pca9685_prescale_cmd
  | k_pca9685_restart_cmd
  | k_pca9685_channel0_on_l_cmd
  | k_pca9685_ready

type_synonym pca9685_hal_h = "pca9685_hal_name \<Rightarrow> 8 word"

record pca9685_board_t =
  board_i2c_bus :: "8 word"
  board_state :: "8 word"
  board_id :: "8 word"
  num_boards :: "8 word"

definition pca9685_scl_io :: "8 word" where
  "pca9685_scl_io = 22"

definition pca9685_sda_io :: "8 word" where
  "pca9685_sda_io = 21"

definition pca9685_i2c_freq_hz :: "32 word" where
  "pca9685_i2c_freq_hz = 100000"

definition pca9685_i2c_address :: "8 word" where
  "pca9685_i2c_address = 0x40"

definition pca9685_osc_freq :: "32 word" where
  "pca9685_osc_freq = 25000000"

definition pca9685_pwm_resolution :: "16 word" where
  "pca9685_pwm_resolution = 4096"

definition pca9685_default_pwm_freq :: "16 word" where
  "pca9685_default_pwm_freq = 50"

definition pca9685_max_pwm_value :: "16 word" where
  "pca9685_max_pwm_value = 4095"

text \<open>
  \<^verbatim>\<open>priv_calculate_prescaler\<close>: 32-bit arithmetic, the result cut to a byte. (A frequency of
  0 divides by zero in C; the driver only passes 50.)
\<close>

definition priv_calculate_prescaler :: "16 word \<Rightarrow> 8 word" where
  "priv_calculate_prescaler pwm_freq =
     ucast ((pca9685_osc_freq div (ucast pca9685_pwm_resolution * ucast pwm_freq)) - 1)"

text \<open>
  \<^verbatim>\<open>pca9685_init\<close>, lines 37 to 51: the search for board \<open>i\<close>; the result is \<^verbatim>\<open>current\<close>
  after the loop.
\<close>

fun pca9685_init_scan :: "pca9685_board_t list \<Rightarrow> 8 word \<Rightarrow> pca9685_board_t option" where
  "pca9685_init_scan [] i = None"
| "pca9685_init_scan (current # rest) i =
     (if board_id current = i then Some current else pca9685_init_scan rest i)"

text \<open>
  Lines 53 to 109: the rest of the loop body, for a board that was not found. \<open>malloc_ok\<close>
  tells whether the allocation succeeds (given the bus calls made so far). The new board is
  linked in at the head only after all five bus calls have succeeded.
\<close>

definition pca9685_init_board :: "pca9685_hal_h \<Rightarrow> i2c_port \<Rightarrow> (i2c_call list \<Rightarrow> bool) \<Rightarrow> 8 word \<Rightarrow> 8 word
    \<Rightarrow> pca9685_board_t list \<Rightarrow> pca9685_board_t list trace
    \<Rightarrow> esp_err_t \<times> pca9685_board_t list \<times> pca9685_board_t list trace" where
  "pca9685_init_board H port malloc_ok n i controller_data tr0 =
    (if \<not> malloc_ok (map fst tr0) then (ESP_ERR_NO_MEM, controller_data, tr0) else
     let new_i2c_bus = pca9685_i2c_address + i;
         ((ret, _), tr1) = i2c port controller_data tr0
            (priv_i2c_init pca9685_scl_io pca9685_sda_io pca9685_i2c_freq_hz new_i2c_bus)
     in if ret \<noteq> ESP_OK then (ret, controller_data, tr1) else
     let ((ret, _), tr2) = i2c port controller_data tr1
            (priv_i2c_write_byte (H k_pca9685_mode1_cmd OR H k_pca9685_sleep_cmd) new_i2c_bus)
     in if ret \<noteq> ESP_OK then (ret, controller_data, tr2) else
     let prescaler = priv_calculate_prescaler pca9685_default_pwm_freq;
         ((ret, _), tr3) = i2c port controller_data tr2
            (priv_i2c_write_byte (H k_pca9685_prescale_cmd) new_i2c_bus)
     in if ret \<noteq> ESP_OK then (ret, controller_data, tr3) else
     let ((ret, _), tr4) = i2c port controller_data tr3
            (priv_i2c_write_byte prescaler new_i2c_bus)
     in if ret \<noteq> ESP_OK then (ret, controller_data, tr4) else
     let ((ret, _), tr5) = i2c port controller_data tr4
            (priv_i2c_write_byte (H k_pca9685_mode1_cmd OR H k_pca9685_restart_cmd) new_i2c_bus)
     in if ret \<noteq> ESP_OK then (ret, controller_data, tr5) else
     let new_board = \<lparr>board_i2c_bus = new_i2c_bus, board_state = H k_pca9685_ready,
                       board_id = i, num_boards = n\<rparr>
     in (ESP_OK, new_board # controller_data, tr5))"

text \<open>
  The loop over \<open>i\<close>, and \<^verbatim>\<open>pca9685_init\<close> itself, which starts it at 0. The count \<open>n\<close>
  is the parameter \<^verbatim>\<open>num_boards\<close>.
\<close>

function pca9685_init_loop :: "pca9685_hal_h \<Rightarrow> i2c_port \<Rightarrow> (i2c_call list \<Rightarrow> bool) \<Rightarrow> 8 word \<Rightarrow> 8 word
    \<Rightarrow> pca9685_board_t list \<Rightarrow> pca9685_board_t list trace
    \<Rightarrow> esp_err_t \<times> pca9685_board_t list \<times> pca9685_board_t list trace" where
  "pca9685_init_loop H port malloc_ok n i controller_data tr0 =
    (if i < n then
       (case pca9685_init_scan controller_data i of
          Some current \<Rightarrow> pca9685_init_loop H port malloc_ok n (i + 1) controller_data tr0
        | None \<Rightarrow>
           (case pca9685_init_board H port malloc_ok n i controller_data tr0 of
              (ret, controller_data', tr1) \<Rightarrow>
                if ret \<noteq> ESP_OK then (ret, controller_data', tr1)
                else pca9685_init_loop H port malloc_ok n (i + 1) controller_data' tr1))
     else (ESP_OK, controller_data, tr0))"
  by pat_completeness auto
termination
proof (relation "measure (\<lambda>(H, port, malloc_ok, n, i, controller_data, tr0). unat n - unat i)")
  fix n i :: "8 word"
  assume "i < n"
  then have "unat n - unat (i + 1) < unat n - unat i"
    by unat_arith
  then show "\<And>H port malloc_ok controller_data tr0.
       ((H, port, malloc_ok, n, i + 1, controller_data, tr0),
        (H, port, malloc_ok, n, i, controller_data, tr0))
       \<in> measure (\<lambda>(H, port, malloc_ok, n, i, controller_data, tr0). unat n - unat i)"
    and "\<And>H port malloc_ok controller_data tr0 controller_data' tr1.
       ((H, port, malloc_ok, n, i + 1, controller_data', tr1),
        (H, port, malloc_ok, n, i, controller_data, tr0))
       \<in> measure (\<lambda>(H, port, malloc_ok, n, i, controller_data, tr0). unat n - unat i)"
    by simp_all
qed simp

declare pca9685_init_loop.simps [simp del]

definition pca9685_init :: "pca9685_hal_h \<Rightarrow> i2c_port \<Rightarrow> (i2c_call list \<Rightarrow> bool) \<Rightarrow> 8 word
    \<Rightarrow> pca9685_board_t list \<Rightarrow> pca9685_board_t list trace
    \<Rightarrow> esp_err_t \<times> pca9685_board_t list \<times> pca9685_board_t list trace" where
  "pca9685_init H port malloc_ok n controller_data tr0 =
     pca9685_init_loop H port malloc_ok n 0 controller_data tr0"

text \<open>
  \<^verbatim>\<open>pca9685_set_angle\<close>, line 141: the pulse length of an angle. The division and the
  multiplication are float operations (the maximum is converted to a float first, exactly);
  the cast truncates.
\<close>

definition pca9685_pulse_length :: "(real \<Rightarrow> real) \<Rightarrow> real \<Rightarrow> 16 word" where
  "pca9685_pulse_length rnd angle =
     float_to_uint16 (rnd (rnd (angle / 180) * real (unat pca9685_max_pwm_value)))"

text \<open>Lines 147 to 172: the three byte writes for one channel whose bit is set in the mask.\<close>

definition pca9685_set_channel :: "pca9685_hal_h \<Rightarrow> i2c_port \<Rightarrow> pca9685_board_t list \<Rightarrow> pca9685_board_t
    \<Rightarrow> 16 word \<Rightarrow> 8 word \<Rightarrow> pca9685_board_t list trace \<Rightarrow> esp_err_t \<times> pca9685_board_t list trace" where
  "pca9685_set_channel H port controller_data current_board pulse_length channel tr0 =
    (let on_l_cmd = H k_pca9685_channel0_on_l_cmd + 4 * channel;
         ((ret, _), tr1) = i2c port controller_data tr0
            (priv_i2c_write_byte on_l_cmd (board_i2c_bus current_board))
     in if ret \<noteq> ESP_OK then (ret, tr1) else
     let ((ret, _), tr2) = i2c port controller_data tr1
            (priv_i2c_write_byte (ucast (pulse_length AND 0xFF)) (board_i2c_bus current_board))
     in if ret \<noteq> ESP_OK then (ret, tr2) else
     let ((ret, _), tr3) = i2c port controller_data tr2
            (priv_i2c_write_byte (ucast (drop_bit 8 pulse_length AND 0xFF)) (board_i2c_bus current_board))
     in (ret, tr3))"

text \<open>Lines 144 to 175: the loop over the 16 channels.\<close>

function pca9685_set_angle_channels :: "pca9685_hal_h \<Rightarrow> i2c_port \<Rightarrow> pca9685_board_t list \<Rightarrow> pca9685_board_t
    \<Rightarrow> 16 word \<Rightarrow> 16 word \<Rightarrow> 8 word \<Rightarrow> pca9685_board_t list trace \<Rightarrow> esp_err_t \<times> pca9685_board_t list trace" where
  "pca9685_set_angle_channels H port controller_data current_board pulse_length motor_mask channel tr0 =
    (if channel < 16 then
       if motor_mask AND push_bit (unat channel) 1 \<noteq> 0 then
         (case pca9685_set_channel H port controller_data current_board pulse_length channel tr0 of
            (ret, tr1) \<Rightarrow>
              if ret \<noteq> ESP_OK then (ret, tr1)
              else pca9685_set_angle_channels H port controller_data current_board pulse_length
                     motor_mask (channel + 1) tr1)
       else pca9685_set_angle_channels H port controller_data current_board pulse_length
              motor_mask (channel + 1) tr0
     else (ESP_OK, tr0))"
  by pat_completeness auto
termination
proof (relation "measure (\<lambda>(H, port, controller_data, current_board, pulse_length, motor_mask, channel, tr0).
                   16 - unat channel)")
  fix channel :: "8 word"
  assume "channel < 16"
  have "channel < m \<Longrightarrow> unat (channel + 1) = Suc (unat channel)" for m
    by unat_arith
  with \<open>channel < 16\<close> have "unat (channel + 1) = Suc (unat channel)"
    by blast
  moreover from \<open>channel < 16\<close> have "unat channel < 16"
    by (simp add: word_less_nat_alt)
  ultimately have "16 - unat (channel + 1) < 16 - unat channel"
    by simp
  then show "\<And>H port controller_data current_board pulse_length motor_mask tr0 tr1.
       ((H, port, controller_data, current_board, pulse_length, motor_mask, channel + 1, tr1),
        (H, port, controller_data, current_board, pulse_length, motor_mask, channel, tr0))
       \<in> measure (\<lambda>(H, port, controller_data, current_board, pulse_length, motor_mask, channel, tr0).
                   16 - unat channel)"
    and "\<And>H port controller_data current_board pulse_length motor_mask tr0.
       ((H, port, controller_data, current_board, pulse_length, motor_mask, channel + 1, tr0),
        (H, port, controller_data, current_board, pulse_length, motor_mask, channel, tr0))
       \<in> measure (\<lambda>(H, port, controller_data, current_board, pulse_length, motor_mask, channel, tr0).
                   16 - unat channel)"
    by simp_all
qed simp

declare pca9685_set_angle_channels.simps [simp del]

text \<open>
  Lines 131 to 181: the walk along the list (\<open>target_id\<close> is the parameter
  \<^verbatim>\<open>board_id\<close>). The first board with the id decides: it is refused when its state
  is not ready, else its channels are written.
\<close>

fun pca9685_set_angle_boards :: "pca9685_hal_h \<Rightarrow> (real \<Rightarrow> real) \<Rightarrow> i2c_port \<Rightarrow> pca9685_board_t list
    \<Rightarrow> pca9685_board_t list \<Rightarrow> 16 word \<Rightarrow> 8 word \<Rightarrow> real \<Rightarrow> pca9685_board_t list trace
    \<Rightarrow> esp_err_t \<times> pca9685_board_t list trace" where
  "pca9685_set_angle_boards H rnd port controller_data [] motor_mask target_id angle tr0 =
     (ESP_ERR_NOT_FOUND, tr0)"
| "pca9685_set_angle_boards H rnd port controller_data (current_board # rest) motor_mask target_id angle tr0 =
     (if board_id current_board = target_id then
        if board_state current_board \<noteq> H k_pca9685_ready then (ESP_FAIL, tr0)
        else
          let pulse_length = pca9685_pulse_length rnd angle
          in pca9685_set_angle_channels H port controller_data current_board pulse_length motor_mask 0 tr0
      else pca9685_set_angle_boards H rnd port controller_data rest motor_mask target_id angle tr0)"

definition pca9685_set_angle :: "pca9685_hal_h \<Rightarrow> (real \<Rightarrow> real) \<Rightarrow> i2c_port \<Rightarrow> pca9685_board_t list
    \<Rightarrow> 16 word \<Rightarrow> 8 word \<Rightarrow> real \<Rightarrow> pca9685_board_t list trace
    \<Rightarrow> esp_err_t \<times> pca9685_board_t list trace" where
  "pca9685_set_angle H rnd port controller_data motor_mask target_id angle tr0 =
    (case controller_data of
       [] \<Rightarrow> (ESP_ERR_INVALID_ARG, tr0)
     | head # _ \<Rightarrow>
        if target_id \<ge> num_boards head then (ESP_ERR_INVALID_ARG, tr0)
        else pca9685_set_angle_boards H rnd port controller_data controller_data motor_mask target_id angle tr0)"

section \<open>Notions used to state the properties\<close>

subsection \<open>Initialization of the sensor\<close>

text \<open>
  The structure as the first assignments of \<^verbatim>\<open>mpu6050_init\<close> (lines 85 to 89) leave it,
  and the bus calls of \<^verbatim>\<open>mpu6050_init\<close> in the order of the source: the driver install
  (0), power-on (1), reset (2), wake (3), sample rate (4), filter (5), gyroscope range (6),
  accelerometer range (7) and the who-am-I read (8).
\<close>

definition mpu6050_cleared :: "mpu6050_data_t \<Rightarrow> mpu6050_data_t" where
  "mpu6050_cleared d =
     d\<lparr>i2c_address := mpu6050_i2c_address, i2c_bus := mpu6050_i2c_bus,
       gyro_x := 0, gyro_y := 0, gyro_z := 0,
       accel_x := 0, accel_y := 0, accel_z := 0,
       state := k_mpu6050_uninitialized\<rparr>"

definition mpu6050_init_calls :: "mpu6050_hal_h \<Rightarrow> i2c_call list" where
  "mpu6050_init_calls H =
     [priv_i2c_init mpu6050_scl_io mpu6050_sda_io mpu6050_i2c_freq_hz mpu6050_i2c_bus,
      priv_i2c_write_reg_byte (H k_mpu6050_pwr_mgmt_1_cmd) (H k_mpu6050_power_on_cmd)
        mpu6050_i2c_bus mpu6050_i2c_address,
      priv_i2c_write_reg_byte (H k_mpu6050_pwr_mgmt_1_cmd) (H k_mpu6050_reset_cmd)
        mpu6050_i2c_bus mpu6050_i2c_address,
      priv_i2c_write_reg_byte (H k_mpu6050_pwr_mgmt_1_cmd) (H k_mpu6050_power_on_cmd)
        mpu6050_i2c_bus mpu6050_i2c_address,
      priv_i2c_write_reg_byte (H k_mpu6050_smplrt_div_cmd) mpu6050_sample_rate_div
        mpu6050_i2c_bus mpu6050_i2c_address,
      priv_i2c_write_reg_byte (H k_mpu6050_config_cmd) (H k_mpu6050_config_dlpf_44hz)
        mpu6050_i2c_bus mpu6050_i2c_address,
      priv_i2c_write_reg_byte (H k_mpu6050_gyro_config_cmd) (H k_mpu6050_gyro_fs_2000dps)
        mpu6050_i2c_bus mpu6050_i2c_address,
      priv_i2c_write_reg_byte (H k_mpu6050_accel_config_cmd) (H k_mpu6050_accel_fs_16g)
        mpu6050_i2c_bus mpu6050_i2c_address,
      priv_i2c_read_reg_bytes (H k_mpu6050_who_am_i_cmd) 1 mpu6050_i2c_bus mpu6050_i2c_address]"

text \<open>
  What the port answers to call \<open>k\<close> of the initialization when the calls before it have
  been made, after the calls of \<open>tr\<close>.
\<close>

definition mpu6050_init_reply :: "mpu6050_hal_h \<Rightarrow> i2c_port \<Rightarrow> 'm trace \<Rightarrow> nat \<Rightarrow> esp_err_t \<times> (nat \<Rightarrow> 8 word)" where
  "mpu6050_init_reply H port tr k =
     port (map fst tr @ take k (mpu6050_init_calls H)) (mpu6050_init_calls H ! k)"

text \<open>The state in which a failure of call \<open>k\<close> leaves the sensor.\<close>

definition mpu6050_init_error_state :: "nat \<Rightarrow> mpu6050_states_t" where
  "mpu6050_init_error_state k =
     (if k = 1 \<or> k = 3 then k_mpu6050_power_on_error
      else if k = 2 then k_mpu6050_reset_error
      else k_mpu6050_uninitialized)"

definition mpu6050_reading_cleared :: "mpu6050_data_t \<Rightarrow> bool" where
  "mpu6050_reading_cleared m \<longleftrightarrow>
     accel_x m = 0 \<and> accel_y m = 0 \<and> accel_z m = 0 \<and> gyro_x m = 0 \<and> gyro_y m = 0 \<and> gyro_z m = 0"

subsection \<open>Concrete inputs\<close>

text \<open>
  Values for the enumerators of \<^verbatim>\<open>mpu6050_hal.h\<close>, used only to run the model on concrete
  inputs: the registers and commands are those of the MPU-6050 register map; the first four
  states have the values of their namesakes in \<^verbatim>\<open>dht22_hal.h\<close>
  (\<^verbatim>\<open>dht22_states_t\<close>), and the two specific errors are given values of the same kind.
\<close>

definition mpu6050_registers :: mpu6050_hal_h where
  "mpu6050_registers c = (case c of
      k_mpu6050_pwr_mgmt_1_cmd \<Rightarrow> 0x6B
    | k_mpu6050_power_on_cmd \<Rightarrow> 0x00
    | k_mpu6050_reset_cmd \<Rightarrow> 0x80
    | k_mpu6050_smplrt_div_cmd \<Rightarrow> 0x19
    | k_mpu6050_config_cmd \<Rightarrow> 0x1A
    | k_mpu6050_config_dlpf_44hz \<Rightarrow> 0x03
    | k_mpu6050_gyro_config_cmd \<Rightarrow> 0x1B
    | k_mpu6050_accel_config_cmd \<Rightarrow> 0x1C
    | k_mpu6050_who_am_i_cmd \<Rightarrow> 0x75
    | k_mpu6050_who_am_i_response \<Rightarrow> 0x68
    | k_mpu6050_accel_xout_h_cmd \<Rightarrow> 0x3B
    | k_mpu6050_gyro_xout_h_cmd \<Rightarrow> 0x43
    | k_mpu6050_accel_fs_2g \<Rightarrow> 0x00
    | k_mpu6050_accel_fs_4g \<Rightarrow> 0x08
    | k_mpu6050_accel_fs_8g \<Rightarrow> 0x10
    | k_mpu6050_accel_fs_16g \<Rightarrow> 0x18
    | k_mpu6050_gyro_fs_250dps \<Rightarrow> 0x00
    | k_mpu6050_gyro_fs_500dps \<Rightarrow> 0x08
    | k_mpu6050_gyro_fs_1000dps \<Rightarrow> 0x10
    | k_mpu6050_gyro_fs_2000dps \<Rightarrow> 0x18)"

definition mpu6050_state_values :: "mpu6050_states_t \<Rightarrow> 8 word" where
  "mpu6050_state_values s = (case s of
      k_mpu6050_ready \<Rightarrow> 0x00
    | k_mpu6050_data_updated \<Rightarrow> 0x01
    | k_mpu6050_uninitialized \<Rightarrow> 0x10
    | k_mpu6050_error \<Rightarrow> 0xF0
    | k_mpu6050_power_on_error \<Rightarrow> 0xA1
    | k_mpu6050_reset_error \<Rightarrow> 0xA2)"

text \<open>A sensor that holds a reading and whose last read failed.\<close>

definition mpu6050_after_failed_read :: mpu6050_data_t where
  "mpu6050_after_failed_read =
     \<lparr>i2c_address = 0x68, i2c_bus = 0,
      accel_x = 1, accel_y = 2, accel_z = 3, gyro_x = 4, gyro_y = 5, gyro_z = 6,
      state = k_mpu6050_error\<rparr>"

subsection \<open>The list of boards\<close>

text \<open>
  What a run of the loop of \<^verbatim>\<open>pca9685_init\<close> from index \<open>i\<close> does to the list: it puts
  new boards in front of it, with different ids from \<open>i\<close> up to \<open>n\<close> that the list did not
  hold; a run that returns \<open>ESP_OK\<close> leaves every such id in the list; and if the list held
  every id below \<open>i\<close>, every id below a new board's is in the resulting list.
\<close>

definition pca9685_loop_post :: "8 word \<Rightarrow> 8 word \<Rightarrow> pca9685_board_t list \<Rightarrow> esp_err_t \<Rightarrow> pca9685_board_t list \<Rightarrow> bool" where
  "pca9685_loop_post n i reg ret reg' \<longleftrightarrow>
     (\<exists>new. reg' = new @ reg \<and> distinct (map board_id new) \<and>
        (\<forall>b\<in>set new. i \<le> board_id b \<and> board_id b < n \<and> board_id b \<notin> board_id ` set reg) \<and>
        (ret = ESP_OK \<longrightarrow> (\<forall>j. i \<le> j \<and> j < n \<longrightarrow> j \<in> board_id ` set reg')) \<and>
        ((\<forall>j<i. j \<in> board_id ` set reg) \<longrightarrow> (\<forall>b\<in>set new. \<forall>j<board_id b. j \<in> board_id ` set reg')))"

text \<open>
  The invariant of the list: no id occurs twice, and with an id the list holds all smaller
  ones.
\<close>

definition pca9685_registry_ok :: "pca9685_board_t list \<Rightarrow> bool" where
  "pca9685_registry_ok reg \<longleftrightarrow>
     distinct (map board_id reg) \<and> (\<forall>b\<in>set reg. \<forall>j<board_id b. j \<in> board_id ` set reg)"

text \<open>
  The lists that calls of \<^verbatim>\<open>pca9685_init\<close> can produce from the empty list: any number
  of calls, with any count, any bus and any allocator, runs that fail included.
\<close>

inductive pca9685_reachable :: "pca9685_hal_h \<Rightarrow> pca9685_board_t list \<Rightarrow> bool" for H where
  empty: "pca9685_reachable H []"
| init: "pca9685_reachable H reg \<Longrightarrow> pca9685_init H port malloc_ok n reg tr = (ret, reg', tr')
           \<Longrightarrow> pca9685_reachable H reg'"

text \<open>
  Values for the enumerators of \<^verbatim>\<open>pca9685_hal.h\<close>, used only to run the model on concrete
  inputs (the registers of the PCA9685 data sheet; 0 for the ready state), and the list that
  a first call of \<^verbatim>\<open>pca9685_init\<close> with three boards builds when every bus call succeeds.
\<close>

definition pca9685_registers :: pca9685_hal_h where
  "pca9685_registers c = (case c of
      k_pca9685_mode1_cmd \<Rightarrow> 0x00
    | k_pca9685_sleep_cmd \<Rightarrow> 0x10
    | k_pca9685_prescale_cmd \<Rightarrow> 0xFE
    | k_pca9685_restart_cmd \<Rightarrow> 0x80
    | k_pca9685_channel0_on_l_cmd \<Rightarrow> 0x06
    | k_pca9685_ready \<Rightarrow> 0x00)"

definition pca9685_three_boards :: "pca9685_board_t list" where
  "pca9685_three_boards =
     [\<lparr>board_i2c_bus = 0x42, board_state = 0x00, board_id = 2, num_boards = 3\<rparr>,
      \<lparr>board_i2c_bus = 0x41, board_state = 0x00, board_id = 1, num_boards = 3\<rparr>,
      \<lparr>board_i2c_bus = 0x40, board_state = 0x00, board_id = 0, num_boards = 3\<rparr>]"

section \<open>Properties of the sensor driver\<close>

subsection \<open>The outcome of an initialization\<close>

lemma nat_less_9:
  "(k::nat) < 9 \<Longrightarrow> k = 0 \<or> k = 1 \<or> k = 2 \<or> k = 3 \<or> k = 4 \<or> k = 5 \<or> k = 6 \<or> k = 7 \<or> k = 8"
  by arith

lemmas mpu6050_init_unfold =
  mpu6050_init_def i2c_def Let_def mpu6050_init_calls_def mpu6050_init_reply_def
  mpu6050_config_dlpf_def mpu6050_gyro_configs_def mpu6050_accel_configs_def
  mpu6050_gyro_config_idx_def mpu6050_accel_config_idx_def mpu6050_cleared_def
  mpu6050_init_error_state_def case_prod_beta

text \<open>
  If call \<open>k\<close> is the first that fails, the function returns its code, the state is the one
  of \<open>mpu6050_init_error_state\<close>, and the calls made are the first \<open>k + 1\<close>.
\<close>

lemma mpu6050_init_first_failure:
  assumes "k < 9"
    and ok: "\<forall>j<k. fst (mpu6050_init_reply H port tr j) = ESP_OK"
    and bad: "fst (mpu6050_init_reply H port tr k) \<noteq> ESP_OK"
  shows "mpu6050_init H port d tr =
     (fst (mpu6050_init_reply H port tr k),
      (mpu6050_cleared d)\<lparr>state := mpu6050_init_error_state k\<rparr>,
      tr @ map (\<lambda>c. (c, mpu6050_cleared d)) (take (Suc k) (mpu6050_init_calls H)))"
proof -
  note r = mpu6050_init_reply_def
  from \<open>k < 9\<close> consider "k = 0" | "k = 1" | "k = 2" | "k = 3" | "k = 4" | "k = 5" | "k = 6"
    | "k = 7" | "k = 8"
    using nat_less_9 by blast
  then show ?thesis
  proof cases
    case 1
    with bad show ?thesis
      by (simp add: mpu6050_init_unfold)
  next
    case 2
    with ok have "fst (mpu6050_init_reply H port tr 0) = ESP_OK"
      by simp
    with 2 bad show ?thesis
      by (simp add: mpu6050_init_unfold)
  next
    case 3
    with ok have "\<forall>j\<in>{0, 1}. fst (mpu6050_init_reply H port tr j) = ESP_OK"
      by simp
    with 3 bad show ?thesis
      by (simp add: mpu6050_init_unfold)
  next
    case 4
    with ok have "\<forall>j\<in>{0, 1, 2}. fst (mpu6050_init_reply H port tr j) = ESP_OK"
      by simp
    with 4 bad show ?thesis
      by (simp add: mpu6050_init_unfold)
  next
    case 5
    with ok have "\<forall>j\<in>{0, 1, 2, 3}. fst (mpu6050_init_reply H port tr j) = ESP_OK"
      by simp
    with 5 bad show ?thesis
      by (simp add: mpu6050_init_unfold)
  next
    case 6
    with ok have "\<forall>j\<in>{0, 1, 2, 3, 4}. fst (mpu6050_init_reply H port tr j) = ESP_OK"
      by simp
    with 6 bad show ?thesis
      by (simp add: mpu6050_init_unfold)
  next
    case 7
    with ok have "\<forall>j\<in>{0, 1, 2, 3, 4, 5}. fst (mpu6050_init_reply H port tr j) = ESP_OK"
      by simp
    with 7 bad show ?thesis
      by (simp add: mpu6050_init_unfold)
  next
    case 8
    with ok have "\<forall>j\<in>{0, 1, 2, 3, 4, 5, 6}. fst (mpu6050_init_reply H port tr j) = ESP_OK"
      by simp
    with 8 bad show ?thesis
      by (simp add: mpu6050_init_unfold)
  next
    case 9
    with ok have "\<forall>j\<in>{0, 1, 2, 3, 4, 5, 6, 7}. fst (mpu6050_init_reply H port tr j) = ESP_OK"
      by simp
    with 9 bad show ?thesis
      by (simp add: mpu6050_init_unfold)
  qed
qed

text \<open>If no call fails, the answer to the who-am-I read decides between two outcomes.\<close>

lemma mpu6050_init_all_ok:
  assumes ok: "\<forall>j<9. fst (mpu6050_init_reply H port tr j) = ESP_OK"
  shows "mpu6050_init H port d tr =
     (if snd (mpu6050_init_reply H port tr 8) 0 \<noteq> H k_mpu6050_who_am_i_response
      then (ESP_OK, mpu6050_cleared d,
            tr @ map (\<lambda>c. (c, mpu6050_cleared d)) (mpu6050_init_calls H))
      else (ESP_OK, (mpu6050_cleared d)\<lparr>state := k_mpu6050_ready\<rparr>,
            tr @ map (\<lambda>c. (c, mpu6050_cleared d)) (mpu6050_init_calls H)))"
proof -
  from ok have "\<forall>j\<in>{0, 1, 2, 3, 4, 5, 6, 7, 8}. fst (mpu6050_init_reply H port tr j) = ESP_OK"
    by simp
  then show ?thesis
    by (simp add: mpu6050_init_unfold)
qed

lemma mpu6050_init_first_failure_exists:
  "(\<forall>j<9. fst (mpu6050_init_reply H port tr j) = ESP_OK) \<or>
   (\<exists>k<9. (\<forall>j<k. fst (mpu6050_init_reply H port tr j) = ESP_OK) \<and>
           fst (mpu6050_init_reply H port tr k) \<noteq> ESP_OK)"
proof (cases "\<forall>j<9. fst (mpu6050_init_reply H port tr j) = ESP_OK")
  case True
  then show ?thesis by simp
next
  case False
  let ?bad = "\<lambda>j. j < 9 \<and> fst (mpu6050_init_reply H port tr j) \<noteq> ESP_OK"
  from False obtain j where "?bad j"
    by blast
  then have least: "?bad (LEAST j. ?bad j)"
    by (rule LeastI)
  have "fst (mpu6050_init_reply H port tr i) = ESP_OK" if "i < (LEAST j. ?bad j)" for i
  proof -
    from that have "\<not> ?bad i"
      by (rule not_less_Least)
    moreover from that least have "i < 9"
      by simp
    ultimately show ?thesis
      by simp
  qed
  with least show ?thesis
    by blast
qed

text \<open>
  In every case the structure returned is the cleared one, up to its state, and the calls
  made are a non-empty prefix of the nine, each made while the structure was cleared.
\<close>

lemma mpu6050_init_shape:
  "\<exists>ret st k. k < 9 \<and> mpu6050_init H port d tr =
      (ret, (mpu6050_cleared d)\<lparr>state := st\<rparr>,
       tr @ map (\<lambda>c. (c, mpu6050_cleared d)) (take (Suc k) (mpu6050_init_calls H)))"
proof -
  consider (ok) "\<forall>j<9. fst (mpu6050_init_reply H port tr j) = ESP_OK"
    | (fail) k where "k < 9" "\<forall>j<k. fst (mpu6050_init_reply H port tr j) = ESP_OK"
        "fst (mpu6050_init_reply H port tr k) \<noteq> ESP_OK"
    using mpu6050_init_first_failure_exists [of H port tr] by blast
  then show ?thesis
  proof cases
    case ok
    have all: "take (Suc 8) (mpu6050_init_calls H) = mpu6050_init_calls H"
      by (simp add: mpu6050_init_calls_def)
    have same: "(mpu6050_cleared d)\<lparr>state := k_mpu6050_uninitialized\<rparr> = mpu6050_cleared d"
      by (simp add: mpu6050_cleared_def)
    from mpu6050_init_all_ok [OF ok, of d] have
      "mpu6050_init H port d tr =
         (ESP_OK, (mpu6050_cleared d)\<lparr>state := k_mpu6050_uninitialized\<rparr>,
          tr @ map (\<lambda>c. (c, mpu6050_cleared d)) (take (Suc 8) (mpu6050_init_calls H))) \<or>
       mpu6050_init H port d tr =
         (ESP_OK, (mpu6050_cleared d)\<lparr>state := k_mpu6050_ready\<rparr>,
          tr @ map (\<lambda>c. (c, mpu6050_cleared d)) (take (Suc 8) (mpu6050_init_calls H)))"
      unfolding all same by (simp split: if_splits)
    then show ?thesis
      by (metis eval_nat_numeral(3) lessI numeral_eq_Suc)
  next
    case fail
    from mpu6050_init_first_failure [OF fail, of d] fail(1) show ?thesis
      by blast
  qed
qed

subsection \<open>Identity verification\<close>

text \<open>
  C1, as amended. When all nine bus calls of an initialization succeed but the byte read
  from the who-am-I register is not the expected one, the assignment of the ready state is
  skipped: the state is left at uninitialized (the driver has no state that records a
  failed verification), so the run does not declare the sensor ready, and all nine calls
  have been made.
\<close>

theorem mpu6050_init_who_am_i_mismatch:
  assumes "\<forall>j<9. fst (mpu6050_init_reply H port tr j) = ESP_OK"
    and "snd (mpu6050_init_reply H port tr 8) 0 \<noteq> H k_mpu6050_who_am_i_response"
  shows "case mpu6050_init H port d tr of (ret, d', tr') \<Rightarrow>
           state d' = k_mpu6050_uninitialized \<and> state d' \<noteq> k_mpu6050_ready \<and>
           map fst tr' = map fst tr @ mpu6050_init_calls H"
  using mpu6050_init_all_ok [OF assms(1), of d] assms(2)
  by (simp add: mpu6050_cleared_def comp_def)

theorem mpu6050_init_who_am_i_mismatch_witness:
  "case mpu6050_init mpu6050_registers (\<lambda>h c. (ESP_OK, \<lambda>i. 0)) mpu6050_after_failed_read [] of
     (ret, d', tr') \<Rightarrow>
        state d' = k_mpu6050_uninitialized \<and> state d' \<noteq> k_mpu6050_ready \<and>
        map fst tr' = mpu6050_init_calls mpu6050_registers"
  using mpu6050_init_who_am_i_mismatch
    [of mpu6050_registers "\<lambda>h c. (ESP_OK, \<lambda>i. 0)" "[]" mpu6050_after_failed_read]
  by (simp add: mpu6050_init_reply_def mpu6050_registers_def)

text \<open>
  C1 as stated fails: with every call answered \<open>ESP_OK\<close> and the byte 0 read where
  \<open>0x68\<close> is expected, the function returns \<open>ESP_OK\<close>, and the state is uninitialized.
\<close>

theorem mpu6050_init_who_am_i_mismatch_counterexample:
  "fst (mpu6050_init mpu6050_registers (\<lambda>h c. (ESP_OK, \<lambda>i. 0)) mpu6050_after_failed_read []) = ESP_OK \<and>
   state (fst (snd (mpu6050_init mpu6050_registers (\<lambda>h c. (ESP_OK, \<lambda>i. 0))
      mpu6050_after_failed_read []))) = k_mpu6050_uninitialized"
  by (simp add: mpu6050_init_def i2c_def Let_def mpu6050_registers_def)

subsection \<open>Short-circuit on the first failure\<close>

text \<open>
  C5, as amended. When call \<open>k\<close> of an initialization is the first to fail, the calls after
  it are not made, the function returns the code of the failed call, and the state is:
  power-on error for the power-on (1) and the wake (3), reset error for the reset (2), and
  still uninitialized for the driver install (0), the sample rate (4), the filter (5), the
  two ranges (6, 7) and the who-am-I read (8).
\<close>

theorem mpu6050_init_short_circuit:
  assumes "k < 9"
    and "\<forall>j<k. fst (mpu6050_init_reply H port tr j) = ESP_OK"
    and "fst (mpu6050_init_reply H port tr k) \<noteq> ESP_OK"
  shows "case mpu6050_init H port d tr of (ret, d', tr') \<Rightarrow>
           ret = fst (mpu6050_init_reply H port tr k) \<and>
           state d' = mpu6050_init_error_state k \<and>
           map fst tr' = map fst tr @ take (Suc k) (mpu6050_init_calls H)"
  using mpu6050_init_first_failure [OF assms, of d]
  by (simp add: comp_def take_map [symmetric] del: take_Suc_Cons)

theorem mpu6050_init_short_circuit_witness:
  "case mpu6050_init mpu6050_registers (\<lambda>h c. (if length h = 2 then ESP_FAIL else ESP_OK, \<lambda>i. 0x68))
          mpu6050_after_failed_read [] of
     (ret, d', tr') \<Rightarrow>
        ret = ESP_FAIL \<and> state d' = k_mpu6050_reset_error \<and>
        map fst tr' = take 3 (mpu6050_init_calls mpu6050_registers)"
  using mpu6050_init_short_circuit [of 2 mpu6050_registers
      "\<lambda>h c. (if length h = 2 then ESP_FAIL else ESP_OK, \<lambda>i. 0x68)" "[]" mpu6050_after_failed_read]
  by (simp add: mpu6050_init_reply_def mpu6050_init_calls_def mpu6050_init_error_state_def
      ESP_FAIL_def ESP_OK_def less_Suc_eq eval_nat_numeral)

text \<open>
  C5 as stated fails: when the write of the sample rate (call 4) fails, the function returns
  the failure and the state is uninitialized, which is not an error state.
\<close>

theorem mpu6050_init_short_circuit_counterexample:
  "fst (mpu6050_init mpu6050_registers (\<lambda>h c. (if length h = 4 then ESP_FAIL else ESP_OK, \<lambda>i. 0x68))
      mpu6050_after_failed_read []) = ESP_FAIL \<and>
   state (fst (snd (mpu6050_init mpu6050_registers
      (\<lambda>h c. (if length h = 4 then ESP_FAIL else ESP_OK, \<lambda>i. 0x68))
      mpu6050_after_failed_read []))) = k_mpu6050_uninitialized"
  by (simp add: mpu6050_init_def i2c_def Let_def mpu6050_registers_def ESP_OK_def ESP_FAIL_def)

subsection \<open>An initialization clears the reading\<close>

text \<open>
  C10. Every run of \<^verbatim>\<open>mpu6050_init\<close> makes at least one bus call, and at every bus call it
  makes the six reading fields are already 0 and the state is uninitialized; the structure
  it returns has the six fields at 0, whatever the outcome. The same holds for a recovery
  call on a state with an error bit, which runs the initialization: the last reading is
  erased even when the attempt fails.
\<close>

theorem mpu6050_init_clears_reading:
  "(case mpu6050_init H port d tr of (ret, d', tr') \<Rightarrow>
      mpu6050_reading_cleared d' \<and> length tr < length tr' \<and> take (length tr) tr' = tr \<and>
      list_all (\<lambda>(c, m). mpu6050_reading_cleared m \<and> state m = k_mpu6050_uninitialized)
        (drop (length tr) tr')) \<and>
   (V (state d) AND V k_mpu6050_error \<noteq> 0 \<longrightarrow>
     (case mpu6050_reset_on_error H V port d tr of (d', tr') \<Rightarrow>
        mpu6050_reading_cleared d' \<and> length tr < length tr' \<and> take (length tr) tr' = tr \<and>
        list_all (\<lambda>(c, m). mpu6050_reading_cleared m \<and> state m = k_mpu6050_uninitialized)
          (drop (length tr) tr')))"
proof -
  obtain ret st k where k: "k < 9"
    and init: "mpu6050_init H port d tr =
      (ret, (mpu6050_cleared d)\<lparr>state := st\<rparr>,
       tr @ map (\<lambda>c. (c, mpu6050_cleared d)) (take (Suc k) (mpu6050_init_calls H)))"
    using mpu6050_init_shape by blast
  have cleared: "mpu6050_reading_cleared (mpu6050_cleared d)"
    "state (mpu6050_cleared d) = k_mpu6050_uninitialized"
    "mpu6050_reading_cleared ((mpu6050_cleared d)\<lparr>state := s\<rparr>)" for s
    by (simp_all add: mpu6050_reading_cleared_def mpu6050_cleared_def)
  have nonempty: "0 < length (take (Suc k) (mpu6050_init_calls H))"
    by (simp add: mpu6050_init_calls_def)
  have snapshots: "list_all (\<lambda>(c, m). mpu6050_reading_cleared m \<and> state m = k_mpu6050_uninitialized)
      (map (\<lambda>c. (c, mpu6050_cleared d)) (take (Suc k) (mpu6050_init_calls H)))"
    using cleared by (simp add: list_all_iff)
  from init cleared nonempty snapshots show ?thesis
    by (simp add: mpu6050_reset_on_error_def del: take_Suc_Cons)
qed

theorem mpu6050_init_clears_reading_witness:
  "mpu6050_state_values (state mpu6050_after_failed_read) AND mpu6050_state_values k_mpu6050_error \<noteq> 0 \<and>
   accel_x mpu6050_after_failed_read = 1 \<and>
   (case mpu6050_reset_on_error mpu6050_registers mpu6050_state_values (\<lambda>h c. (ESP_FAIL, \<lambda>i. 0))
           mpu6050_after_failed_read [] of
      (d', tr') \<Rightarrow> mpu6050_reading_cleared d' \<and> 0 < length tr' \<and>
         list_all (\<lambda>(c, m). mpu6050_reading_cleared m \<and> state m = k_mpu6050_uninitialized) tr')"
  using mpu6050_init_clears_reading [where H = mpu6050_registers
      and port = "\<lambda>h c. (ESP_FAIL, \<lambda>i. 0)" and d = mpu6050_after_failed_read and tr = "[]"
      and V = mpu6050_state_values]
  by (simp add: mpu6050_after_failed_read_def mpu6050_state_values_def)

subsection \<open>Recovery\<close>

text \<open>
  C2, as amended. \<^verbatim>\<open>mpu6050_reset_on_error\<close> takes no time and the sensor's structure holds
  no retry interval or time of the last attempt. A recovery call runs the initialization if
  and only if the state has a bit in common with the general error state: then the bus calls
  it makes are those of \<^verbatim>\<open>mpu6050_init\<close>, the first of them the driver install, on the
  cleared structure; otherwise it changes nothing and makes no call.
\<close>

theorem mpu6050_reset_on_error_attempt:
  "(V (state d) AND V k_mpu6050_error \<noteq> 0 \<longrightarrow>
      snd (mpu6050_reset_on_error H V port d tr) = snd (snd (mpu6050_init H port d tr)) \<and>
      take (Suc (length tr)) (snd (mpu6050_reset_on_error H V port d tr)) =
        tr @ [(priv_i2c_init mpu6050_scl_io mpu6050_sda_io mpu6050_i2c_freq_hz mpu6050_i2c_bus,
               mpu6050_cleared d)]) \<and>
   (V (state d) AND V k_mpu6050_error = 0 \<longrightarrow> mpu6050_reset_on_error H V port d tr = (d, tr))"
proof -
  obtain ret st k where "mpu6050_init H port d tr =
      (ret, (mpu6050_cleared d)\<lparr>state := st\<rparr>,
       tr @ map (\<lambda>c. (c, mpu6050_cleared d)) (take (Suc k) (mpu6050_init_calls H)))"
    using mpu6050_init_shape by blast
  then show ?thesis
    by (simp add: mpu6050_reset_on_error_def mpu6050_init_calls_def)
qed

theorem mpu6050_reset_on_error_attempt_witness:
  "mpu6050_state_values (state mpu6050_after_failed_read) AND mpu6050_state_values k_mpu6050_error \<noteq> 0 \<and>
   take (Suc 0) (snd (mpu6050_reset_on_error mpu6050_registers mpu6050_state_values
       (\<lambda>h c. (ESP_OK, \<lambda>i. 0x68)) mpu6050_after_failed_read [])) =
     [(priv_i2c_init 22 21 100000 0, mpu6050_cleared mpu6050_after_failed_read)] \<and>
   mpu6050_state_values (state (mpu6050_after_failed_read\<lparr>state := k_mpu6050_data_updated\<rparr>))
     AND mpu6050_state_values k_mpu6050_error = 0 \<and>
   mpu6050_reset_on_error mpu6050_registers mpu6050_state_values (\<lambda>h c. (ESP_OK, \<lambda>i. 0x68))
       (mpu6050_after_failed_read\<lparr>state := k_mpu6050_data_updated\<rparr>) [] =
     (mpu6050_after_failed_read\<lparr>state := k_mpu6050_data_updated\<rparr>, [])"
  using
    mpu6050_reset_on_error_attempt [where V = mpu6050_state_values
      and d = mpu6050_after_failed_read and H = mpu6050_registers
      and port = "\<lambda>h c. (ESP_OK, \<lambda>i. 0x68)" and tr = "[]"]
    mpu6050_reset_on_error_attempt [where V = mpu6050_state_values
      and d = "mpu6050_after_failed_read\<lparr>state := k_mpu6050_data_updated\<rparr>"
      and H = mpu6050_registers and port = "\<lambda>h c. (ESP_OK, \<lambda>i. 0x68)" and tr = "[]"]
  by (simp add: mpu6050_after_failed_read_def mpu6050_state_values_def mpu6050_scl_io_def
      mpu6050_sda_io_def mpu6050_i2c_freq_hz_def mpu6050_i2c_bus_def mpu6050_reset_on_error_def
      mpu6050_init_def i2c_def Let_def mpu6050_registers_def ESP_OK_def mpu6050_cleared_def
      mpu6050_i2c_address_def)

text \<open>
  C2 as stated fails: a recovery call on a sensor in the error state is not a no-op at any
  time, since the time is no input of the call. Here the bus answers with a failure: one bus
  call is made and the structure changes.
\<close>

theorem mpu6050_reset_on_error_attempt_counterexample:
  "length (snd (mpu6050_reset_on_error mpu6050_registers mpu6050_state_values
      (\<lambda>h c. (ESP_FAIL, \<lambda>i. 0)) mpu6050_after_failed_read [])) = 1 \<and>
   fst (mpu6050_reset_on_error mpu6050_registers mpu6050_state_values
      (\<lambda>h c. (ESP_FAIL, \<lambda>i. 0)) mpu6050_after_failed_read []) \<noteq> mpu6050_after_failed_read"
  by (simp add: mpu6050_reset_on_error_def mpu6050_init_def i2c_def Let_def
      mpu6050_after_failed_read_def mpu6050_state_values_def ESP_OK_def ESP_FAIL_def)

text \<open>
  C6, as amended. A recovery call on a state with an error bit whose initialization fails
  sets the state to the reset error, whatever error state it was in before; the rest of the
  structure is as the initialization cleared it. The driver keeps no retry bookkeeping.
\<close>

theorem mpu6050_reset_on_error_failed:
  assumes "V (state d) AND V k_mpu6050_error \<noteq> 0"
    and "fst (mpu6050_init H port d tr) \<noteq> ESP_OK"
  shows "fst (mpu6050_reset_on_error H V port d tr) =
           (mpu6050_cleared d)\<lparr>state := k_mpu6050_reset_error\<rparr>"
proof -
  obtain ret st k where "mpu6050_init H port d tr =
      (ret, (mpu6050_cleared d)\<lparr>state := st\<rparr>,
       tr @ map (\<lambda>c. (c, mpu6050_cleared d)) (take (Suc k) (mpu6050_init_calls H)))"
    using mpu6050_init_shape by blast
  with assms show ?thesis
    by (simp add: mpu6050_reset_on_error_def)
qed

theorem mpu6050_reset_on_error_failed_witness:
  "fst (mpu6050_reset_on_error mpu6050_registers mpu6050_state_values (\<lambda>h c. (ESP_FAIL, \<lambda>i. 0))
      (mpu6050_after_failed_read\<lparr>state := k_mpu6050_power_on_error\<rparr>) []) =
   (mpu6050_cleared mpu6050_after_failed_read)\<lparr>state := k_mpu6050_reset_error\<rparr>"
  using mpu6050_reset_on_error_failed [where V = mpu6050_state_values
      and d = "mpu6050_after_failed_read\<lparr>state := k_mpu6050_power_on_error\<rparr>"
      and H = mpu6050_registers and port = "\<lambda>h c. (ESP_FAIL, \<lambda>i. 0)" and tr = "[]"]
  by (simp add: mpu6050_after_failed_read_def mpu6050_state_values_def mpu6050_init_def i2c_def
      Let_def ESP_OK_def ESP_FAIL_def mpu6050_cleared_def)

text \<open>
  C6 as stated fails: the sensor is in the general error state, the initialization fails, and
  afterwards the state is the reset error and the reading is gone.
\<close>

theorem mpu6050_reset_on_error_failed_counterexample:
  "state mpu6050_after_failed_read = k_mpu6050_error \<and>
   accel_x mpu6050_after_failed_read = 1 \<and>
   fst (mpu6050_init mpu6050_registers (\<lambda>h c. (ESP_FAIL, \<lambda>i. 0)) mpu6050_after_failed_read []) = ESP_FAIL \<and>
   state (fst (mpu6050_reset_on_error mpu6050_registers mpu6050_state_values
      (\<lambda>h c. (ESP_FAIL, \<lambda>i. 0)) mpu6050_after_failed_read [])) = k_mpu6050_reset_error \<and>
   accel_x (fst (mpu6050_reset_on_error mpu6050_registers mpu6050_state_values
      (\<lambda>h c. (ESP_FAIL, \<lambda>i. 0)) mpu6050_after_failed_read [])) = 0"
  by (simp add: mpu6050_reset_on_error_def mpu6050_init_def i2c_def Let_def
      mpu6050_after_failed_read_def mpu6050_state_values_def ESP_OK_def ESP_FAIL_def)

subsection \<open>Reading\<close>

text \<open>
  The raw value of an axis, as a number: the two bytes read as a 16-bit two's-complement
  value, high byte first.
\<close>

lemma uint_byte: "0 \<le> uint (b :: 8 word)" "uint (b :: 8 word) < 256"
  using uint_lt2p [of b] by simp_all

lemma take_bit_byte: "take_bit 8 (uint (b :: 8 word)) = uint b" "take_bit 16 (uint (b :: 8 word)) = uint b"
  using uint_byte [of b] by (simp_all add: take_bit_int_eq_self)

lemma or_bytes: "push_bit 8 (uint (hi :: 8 word)) OR uint (lo :: 8 word) = 256 * uint hi + uint lo"
proof -
  have "push_bit 8 (uint hi) OR uint lo = concat_bit 8 (uint lo) (uint hi)"
    by (simp add: concat_bit_def take_bit_byte or.commute)
  also have "\<dots> = take_bit 8 (uint lo) + push_bit 8 (uint hi)"
    by (rule concat_bit_eq)
  finally show ?thesis
    by (simp add: take_bit_byte push_bit_eq_mult)
qed

lemma uint_mpu6050_raw: "uint (mpu6050_raw hi lo) = 256 * uint hi + uint lo"
proof -
  have "uint (push_bit 8 (ucast hi :: 16 word)) = push_bit 8 (uint hi)"
    using uint_byte [of hi]
    by (simp add: unsigned_push_bit_eq unsigned_ucast_eq take_bit_byte take_bit_push_bit)
  moreover have "uint (ucast lo :: 16 word) = uint lo"
    by (simp add: unsigned_ucast_eq take_bit_byte)
  ultimately have "uint (mpu6050_raw hi lo) = push_bit 8 (uint hi) OR uint lo"
    by (simp add: mpu6050_raw_def uint_or)
  then show ?thesis
    by (simp only: or_bytes)
qed

lemma signed_16_of_bytes:
  fixes h l :: int
  assumes "0 \<le> h" "h < 256" "0 \<le> l" "l < 256"
  shows "signed_take_bit 15 (256 * h + l) =
     (if h < 128 then 256 * h + l else 256 * h + l - 65536)"
proof (cases "h < 128")
  case True
  with assms have "0 \<le> 256 * h + l + 32768" "256 * h + l + 32768 < 65536"
    by simp_all
  then have "(256 * h + l + 32768) mod 65536 = 256 * h + l + 32768"
    by (rule mod_pos_pos_trivial)
  with True show ?thesis
    by (simp add: signed_take_bit_eq_take_bit_shift take_bit_eq_mod)
next
  case False
  with assms have "0 \<le> 256 * h + l - 32768" "256 * h + l - 32768 < 65536"
    by simp_all
  then have "(256 * h + l - 32768) mod 65536 = 256 * h + l - 32768"
    by (rule mod_pos_pos_trivial)
  moreover have "(256 * h + l + 32768) mod 65536 = (256 * h + l - 32768 + 65536) mod 65536"
    by (rule arg_cong [where f = "\<lambda>x. x mod 65536"]) simp
  then have "(256 * h + l + 32768) mod 65536 = (256 * h + l - 32768) mod 65536"
    by (simp only: mod_add_self2)
  ultimately show ?thesis
    using False by (simp add: signed_take_bit_eq_take_bit_shift take_bit_eq_mod)
qed

lemma sint_mpu6050_raw:
  "sint (mpu6050_raw hi lo) =
     (if uint hi < 128 then 256 * uint hi + uint lo else 256 * uint hi + uint lo - 65536)"
proof -
  have "sint (mpu6050_raw hi lo) = signed_take_bit 15 (uint (mpu6050_raw hi lo))"
    by (simp add: sint_uint)
  also have "\<dots> = signed_take_bit 15 (256 * uint hi + uint lo)"
    by (simp only: uint_mpu6050_raw)
  finally show ?thesis
    using uint_byte [of hi] uint_byte [of lo] by (simp only: signed_16_of_bytes)
qed

text \<open>The result of a read, with the raw values as the model computes them.\<close>

lemma mpu6050_read_result:
  "(let a = port (map fst tr)
              (priv_i2c_read_reg_bytes (H k_mpu6050_accel_xout_h_cmd) 6 (i2c_bus d) (i2c_address d));
        g = port (map fst tr @
                   [priv_i2c_read_reg_bytes (H k_mpu6050_accel_xout_h_cmd) 6 (i2c_bus d) (i2c_address d)])
              (priv_i2c_read_reg_bytes (H k_mpu6050_gyro_xout_h_cmd) 6 (i2c_bus d) (i2c_address d));
        s16 = (\<lambda>hi lo :: 8 word. real_of_int (sint (mpu6050_raw hi lo)))
    in (fst a = ESP_OK \<and> fst g = ESP_OK \<longrightarrow>
          fst (mpu6050_read H rnd port (Some d) tr) =
            Some (d\<lparr>accel_x := rnd (s16 (snd a 0) (snd a 1) / rnd 2048),
                    accel_y := rnd (s16 (snd a 2) (snd a 3) / rnd 2048),
                    accel_z := rnd (s16 (snd a 4) (snd a 5) / rnd 2048),
                    gyro_x := rnd (s16 (snd g 0) (snd g 1) / rnd 16.4),
                    gyro_y := rnd (s16 (snd g 2) (snd g 3) / rnd 16.4),
                    gyro_z := rnd (s16 (snd g 4) (snd g 5) / rnd 16.4),
                    state := k_mpu6050_data_updated\<rparr>)) \<and>
       (fst a \<noteq> ESP_OK \<or> fst g \<noteq> ESP_OK \<longrightarrow>
          fst (mpu6050_read H rnd port (Some d) tr) = Some (d\<lparr>state := k_mpu6050_error\<rparr>)))"
  by (simp add: mpu6050_read_def i2c_def Let_def case_prod_beta mpu6050_accel_configs_def
      mpu6050_gyro_configs_def mpu6050_accel_config_idx_def mpu6050_gyro_config_idx_def)

text \<open>
  C4. Let \<open>a\<close> and \<open>g\<close> be the port's answers to the block read of six bytes at the
  accelerometer register and to the following one at the gyroscope register. If both
  succeed, the result is the structure with the state \<open>k_mpu6050_data_updated\<close> and each of
  the six fields written from the bytes just read: the field of an axis is the 16-bit
  two's-complement value of its high and low byte (bytes 0 and 1 for x, 2 and 3 for y, 4 and
  5 for z), divided by the sensitivity of the chosen row, 2048 for the accelerometer and 16.4
  for the gyroscope. If the first read fails, or the second does, the state becomes
  \<open>k_mpu6050_error\<close> and nothing else changes, so the six fields keep their values.
\<close>

theorem mpu6050_read_outcome:
  "(let a = port (map fst tr)
              (priv_i2c_read_reg_bytes (H k_mpu6050_accel_xout_h_cmd) 6 (i2c_bus d) (i2c_address d));
        g = port (map fst tr @
                   [priv_i2c_read_reg_bytes (H k_mpu6050_accel_xout_h_cmd) 6 (i2c_bus d) (i2c_address d)])
              (priv_i2c_read_reg_bytes (H k_mpu6050_gyro_xout_h_cmd) 6 (i2c_bus d) (i2c_address d));
        s16 = (\<lambda>hi lo :: 8 word. real_of_int
                (if uint hi < 128 then 256 * uint hi + uint lo else 256 * uint hi + uint lo - 65536))
    in (fst a = ESP_OK \<and> fst g = ESP_OK \<longrightarrow>
          fst (mpu6050_read H rnd port (Some d) tr) =
            Some (d\<lparr>accel_x := rnd (s16 (snd a 0) (snd a 1) / rnd 2048),
                    accel_y := rnd (s16 (snd a 2) (snd a 3) / rnd 2048),
                    accel_z := rnd (s16 (snd a 4) (snd a 5) / rnd 2048),
                    gyro_x := rnd (s16 (snd g 0) (snd g 1) / rnd 16.4),
                    gyro_y := rnd (s16 (snd g 2) (snd g 3) / rnd 16.4),
                    gyro_z := rnd (s16 (snd g 4) (snd g 5) / rnd 16.4),
                    state := k_mpu6050_data_updated\<rparr>)) \<and>
       (fst a \<noteq> ESP_OK \<or> fst g \<noteq> ESP_OK \<longrightarrow>
          fst (mpu6050_read H rnd port (Some d) tr) = Some (d\<lparr>state := k_mpu6050_error\<rparr>)))"
  using mpu6050_read_result [where port = port and tr = tr and H = H and d = d and rnd = rnd]
  by (simp only: sint_mpu6050_raw)

theorem mpu6050_read_outcome_witness:
  "fst (mpu6050_read mpu6050_registers (\<lambda>x. x)
      (\<lambda>h c. (ESP_OK, \<lambda>i. (if h = [] then [0x08, 0x00, 0xF8, 0x00, 0x10, 0x00]
                                else [0x00, 0xA4, 0xFF, 0x5C, 0x01, 0x48]) ! i))
      (Some mpu6050_after_failed_read) []) =
     Some (mpu6050_after_failed_read\<lparr>accel_x := 1, accel_y := - 1, accel_z := 2,
        gyro_x := 10, gyro_y := - 10, gyro_z := 20, state := k_mpu6050_data_updated\<rparr>) \<and>
   fst (mpu6050_read mpu6050_registers (\<lambda>x. x)
      (\<lambda>h c. (if h = [] then ESP_OK else ESP_FAIL,
               \<lambda>i. (if h = [] then [0x08, 0x00, 0xF8, 0x00, 0x10, 0x00]
                     else [0x00, 0xA4, 0xFF, 0x5C, 0x01, 0x48]) ! i))
      (Some mpu6050_after_failed_read) []) =
     Some (mpu6050_after_failed_read\<lparr>state := k_mpu6050_error\<rparr>)"
  using
    mpu6050_read_outcome [where H = mpu6050_registers and rnd = "\<lambda>x. x"
      and port = "\<lambda>h c. (ESP_OK, \<lambda>i. (if h = [] then [0x08, 0x00, 0xF8, 0x00, 0x10, 0x00]
                                else [0x00, 0xA4, 0xFF, 0x5C, 0x01, 0x48]) ! i)"
      and d = mpu6050_after_failed_read and tr = "[] :: mpu6050_data_t trace"]
    mpu6050_read_outcome [where H = mpu6050_registers and rnd = "\<lambda>x. x"
      and port = "\<lambda>h c. (if h = [] then ESP_OK else ESP_FAIL,
               \<lambda>i. (if h = [] then [0x08, 0x00, 0xF8, 0x00, 0x10, 0x00]
                     else [0x00, 0xA4, 0xFF, 0x5C, 0x01, 0x48]) ! i)"
      and d = mpu6050_after_failed_read and tr = "[] :: mpu6050_data_t trace"]
  by (simp add: Let_def ESP_OK_def ESP_FAIL_def)

section \<open>Properties of the PWM controller driver\<close>

subsection \<open>Registration\<close>

lemma word8_inc_le: "(i::8 word) < n \<Longrightarrow> (i + 1 \<le> j) = (i < j)"
  by (metis inc_le interval_class.inc_less_eq_imp_less)

lemma word8_less_inc: "(i::8 word) < n \<Longrightarrow> (j < i + 1) = (j \<le> i)"
  by (meson inc_le interval_class.inc_less_eq_imp_less linorder_not_less)

lemma pca9685_init_scan_None: "pca9685_init_scan reg i = None \<longleftrightarrow> i \<notin> board_id ` set reg"
  by (induction reg) auto

lemma pca9685_init_scan_Some: "pca9685_init_scan reg i = Some b \<Longrightarrow> b \<in> set reg \<and> board_id b = i"
  by (induction reg) (auto split: if_splits)

lemma pca9685_init_board_cases:
  assumes "pca9685_init_board H port malloc_ok n i reg tr = (ret, reg', tr')"
  shows "(ret = ESP_OK \<and> reg' = \<lparr>board_i2c_bus = pca9685_i2c_address + i, board_state = H k_pca9685_ready,
                       board_id = i, num_boards = n\<rparr> # reg) \<or> (ret \<noteq> ESP_OK \<and> reg' = reg)"
  using assms
  by (auto simp add: pca9685_init_board_def i2c_def Let_def case_prod_beta ESP_ERR_NO_MEM_def ESP_OK_def split: if_splits)

lemma pca9685_init_loop_inv:
  assumes "pca9685_init_loop H port malloc_ok n i reg tr = (ret, reg', tr')"
  shows "pca9685_loop_post n i reg ret reg'"
  using assms
proof (induction H port malloc_ok n i reg tr rule: pca9685_init_loop.induct)
  case (1 H port malloc_ok n i reg tr)
  note res = "1.prems"
  show ?case
  proof (cases "i < n")
    case False
    with res have "ret = ESP_OK" "reg' = reg"
      by (simp_all add: pca9685_init_loop.simps [of H port malloc_ok n i reg tr])
    with False show ?thesis
      by (auto simp add: pca9685_loop_post_def)
  next
    case True
    show ?thesis
    proof (cases "pca9685_init_scan reg i")
      case (Some current)
      with True res have "pca9685_init_loop H port malloc_ok n (i + 1) reg tr = (ret, reg', tr')"
        by (simp add: pca9685_init_loop.simps [of H port malloc_ok n i reg tr])
      with "1.IH"(2) [OF True Some] have post: "pca9685_loop_post n (i + 1) reg ret reg'"
        by simp
      from Some have present: "i \<in> board_id ` set reg"
        using pca9685_init_scan_Some by force
      from post obtain new where new: "reg' = new @ reg" "distinct (map board_id new)"
        "\<forall>b\<in>set new. i + 1 \<le> board_id b \<and> board_id b < n \<and> board_id b \<notin> board_id ` set reg"
        "ret = ESP_OK \<longrightarrow> (\<forall>j. i + 1 \<le> j \<and> j < n \<longrightarrow> j \<in> board_id ` set reg')"
        "(\<forall>j<i + 1. j \<in> board_id ` set reg) \<longrightarrow> (\<forall>b\<in>set new. \<forall>j<board_id b. j \<in> board_id ` set reg')"
        unfolding pca9685_loop_post_def by blast
      have a: "\<forall>b\<in>set new. i \<le> board_id b \<and> board_id b < n \<and> board_id b \<notin> board_id ` set reg"
        using new(3) word8_inc_le [OF True] by fastforce
      have b: "ret = ESP_OK \<longrightarrow> (\<forall>j. i \<le> j \<and> j < n \<longrightarrow> j \<in> board_id ` set reg')"
      proof (intro impI allI)
        fix j assume "ret = ESP_OK" "i \<le> j \<and> j < n"
        then show "j \<in> board_id ` set reg'"
          using new(1,4) present word8_inc_le [OF True, of j] by (cases "j = i") auto
      qed
      have c: "(\<forall>j<i. j \<in> board_id ` set reg) \<longrightarrow> (\<forall>b\<in>set new. \<forall>j<board_id b. j \<in> board_id ` set reg')"
      proof
        assume "\<forall>j<i. j \<in> board_id ` set reg"
        with present have "\<forall>j<i + 1. j \<in> board_id ` set reg"
          using word8_less_inc [OF True] by (metis order_le_less)
        with new(5) show "\<forall>b\<in>set new. \<forall>j<board_id b. j \<in> board_id ` set reg'"
          by blast
      qed
      from new(1,2) a b c show ?thesis
        unfolding pca9685_loop_post_def by blast
    next
      case None
      obtain r1 reg1 tr1 where board: "pca9685_init_board H port malloc_ok n i reg tr = (r1, reg1, tr1)"
        by (metis prod_cases3)
      show ?thesis
      proof (cases "r1 = ESP_OK")
        case False
        with True None board res have "ret = r1" "reg' = reg1"
          by (simp_all add: pca9685_init_loop.simps [of H port malloc_ok n i reg tr])
        moreover from pca9685_init_board_cases [OF board] False have "reg1 = reg"
          by simp
        ultimately show ?thesis
          using False by (simp add: pca9685_loop_post_def)
      next
        case ok: True
        let ?nb = "\<lparr>board_i2c_bus = pca9685_i2c_address + i, board_state = H k_pca9685_ready,
                       board_id = i, num_boards = n\<rparr>"
        from pca9685_init_board_cases [OF board] ok have reg1: "reg1 = ?nb # reg"
          by simp
        from True None board ok res have "pca9685_init_loop H port malloc_ok n (i + 1) reg1 tr1 = (ret, reg', tr')"
          by (simp add: pca9685_init_loop.simps [of H port malloc_ok n i reg tr])
        with "1.IH"(1) [OF True None board [symmetric] refl] ok have post: "pca9685_loop_post n (i + 1) reg1 ret reg'"
          by simp
        from None have absent: "i \<notin> board_id ` set reg"
          by (simp add: pca9685_init_scan_None)
        from post obtain new where new: "reg' = new @ reg1" "distinct (map board_id new)"
          "\<forall>b\<in>set new. i + 1 \<le> board_id b \<and> board_id b < n \<and> board_id b \<notin> board_id ` set reg1"
          "ret = ESP_OK \<longrightarrow> (\<forall>j. i + 1 \<le> j \<and> j < n \<longrightarrow> j \<in> board_id ` set reg')"
          "(\<forall>j<i + 1. j \<in> board_id ` set reg1) \<longrightarrow> (\<forall>b\<in>set new. \<forall>j<board_id b. j \<in> board_id ` set reg')"
          unfolding pca9685_loop_post_def by blast
        let ?new = "new @ [?nb]"
        have eq: "reg' = ?new @ reg"
          using new(1) reg1 by simp
        have d: "distinct (map board_id ?new)"
          using new(2,3) reg1 by auto
        have a: "\<forall>b\<in>set ?new. i \<le> board_id b \<and> board_id b < n \<and> board_id b \<notin> board_id ` set reg"
          using new(3) reg1 absent True word8_inc_le [OF True] by fastforce
        have b: "ret = ESP_OK \<longrightarrow> (\<forall>j. i \<le> j \<and> j < n \<longrightarrow> j \<in> board_id ` set reg')"
        proof (intro impI allI)
          fix j assume "ret = ESP_OK" "i \<le> j \<and> j < n"
          then show "j \<in> board_id ` set reg'"
            using new(1,4) reg1 word8_inc_le [OF True, of j] by (cases "j = i") auto
        qed
        have c: "(\<forall>j<i. j \<in> board_id ` set reg) \<longrightarrow> (\<forall>b\<in>set ?new. \<forall>j<board_id b. j \<in> board_id ` set reg')"
        proof
          assume below: "\<forall>j<i. j \<in> board_id ` set reg"
          then have "\<forall>j<i + 1. j \<in> board_id ` set reg1"
            using word8_less_inc [OF True] reg1 by (auto simp add: order_le_less)
          with new(5) have "\<forall>b\<in>set new. \<forall>j<board_id b. j \<in> board_id ` set reg'"
            by blast
          moreover from below eq have "\<forall>j<i. j \<in> board_id ` set reg'"
            by auto
          ultimately show "\<forall>b\<in>set ?new. \<forall>j<board_id b. j \<in> board_id ` set reg'"
            by auto
        qed
        from eq d a b c show ?thesis
          unfolding pca9685_loop_post_def by blast
      qed
    qed
  qed
qed

lemma pca9685_init_keeps_ok:
  assumes "pca9685_registry_ok reg" and "pca9685_init H port malloc_ok n reg tr = (ret, reg', tr')"
  shows "pca9685_registry_ok reg'"
proof -
  from assms(2) have "pca9685_loop_post n 0 reg ret reg'"
    unfolding pca9685_init_def by (rule pca9685_init_loop_inv)
  then obtain new where new: "reg' = new @ reg" "distinct (map board_id new)"
    "\<forall>b\<in>set new. board_id b \<notin> board_id ` set reg"
    "\<forall>b\<in>set new. \<forall>j<board_id b. j \<in> board_id ` set reg'"
    unfolding pca9685_loop_post_def by auto
  from assms(1) new(1,2,3) have "distinct (map board_id reg')"
    by (auto simp add: pca9685_registry_ok_def)
  moreover from assms(1) new(1) have "\<forall>b\<in>set reg. \<forall>j<board_id b. j \<in> board_id ` set reg'"
    by (auto simp add: pca9685_registry_ok_def)
  ultimately show ?thesis
    using new(1,4) by (auto simp add: pca9685_registry_ok_def)
qed

lemma pca9685_reachable_ok: "pca9685_reachable H reg \<Longrightarrow> pca9685_registry_ok reg"
proof (induction rule: pca9685_reachable.induct)
  case empty
  show ?case by (simp add: pca9685_registry_ok_def)
next
  case (init reg port malloc_ok n tr ret reg' tr')
  then show ?case by (blast intro: pca9685_init_keeps_ok)
qed

lemma word8_card_below:
  fixes S :: "8 word set"
  assumes "S \<subseteq> {w. w < j}"
  shows "card S \<le> unat j"
proof -
  have "inj_on unat S"
    by (auto simp add: inj_on_def word_unat_eq_iff)
  then have "card S = card (unat ` S)"
    by (simp add: card_image)
  moreover from assms have "unat ` S \<subseteq> {..<unat j}"
    by (auto simp add: word_less_nat_alt)
  then have "card (unat ` S) \<le> card {..<unat j}"
    by (intro card_mono) auto
  ultimately show ?thesis
    by simp
qed

lemma pca9685_registry_prefix:
  assumes "pca9685_registry_ok reg" and "unat j < length reg"
  shows "j \<in> board_id ` set reg"
proof (rule ccontr)
  assume absent: "j \<notin> board_id ` set reg"
  have "board_id ` set reg \<subseteq> {w. w < j}"
  proof
    fix w assume w: "w \<in> board_id ` set reg"
    have "\<not> j < w"
    proof
      assume "j < w"
      with w assms(1) have "j \<in> board_id ` set reg"
        by (auto simp add: pca9685_registry_ok_def)
      with absent show False by simp
    qed
    with w absent show "w \<in> {w. w < j}"
      by (cases "w = j") auto
  qed
  then have "card (board_id ` set reg) \<le> unat j"
    by (rule word8_card_below)
  moreover from assms(1) have "card (board_id ` set reg) = length reg"
    by (metis distinct_card length_map list.set_map pca9685_registry_ok_def)
  ultimately show False
    using assms(2) by simp
qed

lemma pca9685_init_loop_present:
  assumes "\<forall>j. i \<le> j \<and> j < n \<longrightarrow> j \<in> board_id ` set reg"
  shows "pca9685_init_loop H port malloc_ok n i reg tr = (ESP_OK, reg, tr)"
  using assms
proof (induction H port malloc_ok n i reg tr rule: pca9685_init_loop.induct)
  case (1 H port malloc_ok n i reg tr)
  show ?case
  proof (cases "i < n")
    case False
    then show ?thesis
      by (simp add: pca9685_init_loop.simps [of H port malloc_ok n i reg tr])
  next
    case True
    with "1.prems" have "i \<in> board_id ` set reg"
      by simp
    then obtain current where cur: "pca9685_init_scan reg i = Some current"
      using pca9685_init_scan_None by (cases "pca9685_init_scan reg i") auto
    from "1.prems" have "\<forall>j. i + 1 \<le> j \<and> j < n \<longrightarrow> j \<in> board_id ` set reg"
      using word8_inc_le [OF True] by auto
    with "1.IH"(2) [OF True cur] have "pca9685_init_loop H port malloc_ok n (i + 1) reg tr = (ESP_OK, reg, tr)"
      by simp
    with True cur show ?thesis
      by (simp add: pca9685_init_loop.simps [of H port malloc_ok n i reg tr])
  qed
qed

text \<open>
  C3. Let the list of boards be one that earlier calls of \<^verbatim>\<open>pca9685_init\<close> have built, and
  run \<^verbatim>\<open>pca9685_init\<close> with a count \<open>n\<close>, whatever the bus and the allocator do. Then no id
  occurs twice in the resulting list; the resulting list is the old one with new boards in
  front, so no board is removed and no existing board (its bus address included) is changed;
  the new boards have ids below \<open>n\<close> that the old list did not hold; after a successful run
  every id below \<open>n\<close> is in the list; and when \<open>n\<close> is at most the number of boards in the
  list, the run succeeds, leaves the list as it is and makes no bus call.
\<close>

theorem pca9685_init_idempotent:
  assumes "pca9685_reachable H reg"
    and "pca9685_init H port malloc_ok n reg tr = (ret, reg', tr')"
  shows "distinct (map board_id reg') \<and>
         (\<exists>new. reg' = new @ reg \<and> board_id ` set new \<subseteq> {i. i < n} - board_id ` set reg) \<and>
         (ret = ESP_OK \<longrightarrow> {i. i < n} \<subseteq> board_id ` set reg') \<and>
         (unat n \<le> length reg \<longrightarrow> ret = ESP_OK \<and> reg' = reg \<and> tr' = tr)"
proof -
  from assms(1) have ok: "pca9685_registry_ok reg"
    by (rule pca9685_reachable_ok)
  from ok assms(2) have "pca9685_registry_ok reg'"
    by (rule pca9685_init_keeps_ok)
  then have distinct: "distinct (map board_id reg')"
    by (simp add: pca9685_registry_ok_def)
  from assms(2) have post: "pca9685_loop_post n 0 reg ret reg'"
    unfolding pca9685_init_def by (rule pca9685_init_loop_inv)
  from post obtain new where new: "reg' = new @ reg"
    "\<forall>b\<in>set new. 0 \<le> board_id b \<and> board_id b < n \<and> board_id b \<notin> board_id ` set reg"
    "ret = ESP_OK \<longrightarrow> (\<forall>j. 0 \<le> j \<and> j < n \<longrightarrow> j \<in> board_id ` set reg')"
    unfolding pca9685_loop_post_def by blast
  from new(2) have "board_id ` set new \<subseteq> {i. i < n} - board_id ` set reg"
    by auto
  with new(1) have "\<exists>new. reg' = new @ reg \<and> board_id ` set new \<subseteq> {i. i < n} - board_id ` set reg"
    by blast
  moreover from new(3) have "ret = ESP_OK \<longrightarrow> {i. i < n} \<subseteq> board_id ` set reg'"
    by auto
  moreover have "ret = ESP_OK \<and> reg' = reg \<and> tr' = tr" if "unat n \<le> length reg"
  proof -
    have "\<forall>j. 0 \<le> j \<and> j < n \<longrightarrow> j \<in> board_id ` set reg"
    proof (intro allI impI)
      fix j assume "0 \<le> j \<and> j < n"
      then have "unat j < unat n"
        by (simp add: word_less_nat_alt)
      with that have "unat j < length reg"
        by simp
      with ok show "j \<in> board_id ` set reg"
        by (rule pca9685_registry_prefix)
    qed
    then have "pca9685_init_loop H port malloc_ok n 0 reg tr = (ESP_OK, reg, tr)"
      by (rule pca9685_init_loop_present)
    with assms(2) show ?thesis
      by (simp add: pca9685_init_def)
  qed
  ultimately show ?thesis
    using distinct by blast
qed

theorem pca9685_init_idempotent_witness:
  "pca9685_init pca9685_registers (\<lambda>h c. (ESP_FAIL, \<lambda>i. 0)) (\<lambda>h. False) 2 pca9685_three_boards [] =
     (ESP_OK, pca9685_three_boards, [])"
proof -
  let ?port = "\<lambda>(h :: i2c_call list) (c :: i2c_call). (ESP_OK, \<lambda>i :: nat. 0 :: 8 word)"
  have "fst (snd (pca9685_init pca9685_registers ?port (\<lambda>h. True) 3 [] [])) = pca9685_three_boards"
    by (simp add: pca9685_init_def pca9685_init_loop.simps pca9685_init_board_def i2c_def Let_def
      pca9685_three_boards_def pca9685_registers_def pca9685_i2c_address_def)
  then obtain ret tr where "pca9685_init pca9685_registers ?port (\<lambda>h. True) 3 [] [] = (ret, pca9685_three_boards, tr)"
    by (metis prod.collapse)
  with pca9685_reachable.empty have reach: "pca9685_reachable pca9685_registers pca9685_three_boards"
    by (rule pca9685_reachable.init)
  obtain ret' reg' tr' where again:
    "pca9685_init pca9685_registers (\<lambda>h c. (ESP_FAIL, \<lambda>i. 0)) (\<lambda>h. False) 2 pca9685_three_boards [] = (ret', reg', tr')"
    by (metis prod_cases3)
  from pca9685_init_idempotent [OF reach again] have "ret' = ESP_OK \<and> reg' = pca9685_three_boards \<and> tr' = []"
    by (simp add: pca9685_three_boards_def)
  with again show ?thesis
    by simp
qed

subsection \<open>The pulse length of an angle\<close>

lemma float_to_uint16_mono:
  assumes "0 \<le> x" "x \<le> y" "y < 65536"
  shows "float_to_uint16 x \<le> float_to_uint16 y"
proof -
  from assms have fl: "0 \<le> \<lfloor>x\<rfloor>" "\<lfloor>x\<rfloor> \<le> \<lfloor>y\<rfloor>" "\<lfloor>y\<rfloor> < 65536"
    by (simp_all add: floor_mono floor_less_iff)
  then have "\<lfloor>x\<rfloor> mod 65536 = \<lfloor>x\<rfloor>" "\<lfloor>y\<rfloor> mod 65536 = \<lfloor>y\<rfloor>"
    by (intro mod_pos_pos_trivial; linarith)+
  with fl have "(word_of_int \<lfloor>x\<rfloor> :: 16 word) \<le> word_of_int \<lfloor>y\<rfloor>"
    by (simp add: word_le_def uint_word_of_int take_bit_eq_mod)
  with assms show ?thesis
    by (simp add: float_to_uint16_def)
qed

text \<open>
  C7, as amended. For a rounding to floats that is monotonic and leaves 0, 1 and 4095 as
  they are, the pulse length is monotonic on the angles from 0 to 180, but not strictly so:
  for \<open>0 \<le> a1 \<le> a2 \<le> 180\<close> the pulse length of \<open>a1\<close> is at most that of \<open>a2\<close>. It
  is 0 at angle 0 and the maximum, 4095, at angle 180.
\<close>

theorem pca9685_pulse_length_mono:
  assumes "mono rnd" and "rnd 0 = 0" and "rnd 1 = 1" and "rnd 4095 = 4095"
    and "0 \<le> a1" and "a1 \<le> a2" and "a2 \<le> 180"
  shows "pca9685_pulse_length rnd a1 \<le> pca9685_pulse_length rnd a2 \<and>
         pca9685_pulse_length rnd 0 = 0 \<and>
         pca9685_pulse_length rnd 180 = pca9685_max_pwm_value"
proof -
  have max: "real (unat pca9685_max_pwm_value) = 4095"
    by (simp add: pca9685_max_pwm_value_def)
  let ?f = "\<lambda>a. rnd (rnd (a / 180) * 4095)"
  have lower: "0 \<le> rnd (a / 180)" if "0 \<le> a" for a :: real
    using monoD [OF assms(1), of 0 "a / 180"] that assms(2) by simp
  have upper: "rnd (a / 180) \<le> 1" if "a \<le> 180" for a :: real
    using monoD [OF assms(1), of "a / 180" 1] that assms(3) by simp
  have "0 \<le> ?f a1"
    using monoD [OF assms(1), of 0 "rnd (a1 / 180) * 4095"] lower [OF assms(5)] assms(2) by simp
  moreover have "?f a1 \<le> ?f a2"
  proof -
    from assms(6) have "rnd (a1 / 180) \<le> rnd (a2 / 180)"
      by (intro monoD [OF assms(1)]) (simp add: divide_right_mono)
    then show ?thesis
      by (intro monoD [OF assms(1)]) simp
  qed
  moreover have "?f a2 < 65536"
  proof -
    from upper [OF assms(7)] have "rnd (a2 / 180) * 4095 \<le> 4095"
      by simp
    then have "?f a2 \<le> rnd 4095"
      by (rule monoD [OF assms(1)])
    with assms(4) show ?thesis
      by simp
  qed
  ultimately have "float_to_uint16 (?f a1) \<le> float_to_uint16 (?f a2)"
    by (rule float_to_uint16_mono)
  moreover have "pca9685_pulse_length rnd 0 = 0"
    using assms(2) by (simp add: pca9685_pulse_length_def float_to_uint16_def)
  moreover have "pca9685_pulse_length rnd 180 = pca9685_max_pwm_value"
    using assms(3,4) by (simp add: pca9685_pulse_length_def float_to_uint16_def max pca9685_max_pwm_value_def)
  ultimately show ?thesis
    by (simp add: pca9685_pulse_length_def pca9685_max_pwm_value_def)
qed

theorem pca9685_pulse_length_mono_witness:
  "pca9685_pulse_length (\<lambda>x. x) 45 \<le> pca9685_pulse_length (\<lambda>x. x) 90 \<and>
   pca9685_pulse_length (\<lambda>x. x) 0 = 0 \<and>
   pca9685_pulse_length (\<lambda>x. x) 180 = pca9685_max_pwm_value"
  using pca9685_pulse_length_mono [where rnd = "\<lambda>x. x" and ?a1.0 = 45 and ?a2.0 = 90]
  by (simp add: mono_def)

text \<open>
  C7 as stated fails: the angles 0 and 45/2048 (about 0.022 degrees) both give the pulse
  length 0. At these inputs every float operation is exact (45/2048 divided by 180 is
  1/8192, times 4095 is 4095/8192), so the rounding plays no part.
\<close>

theorem pca9685_pulse_length_mono_counterexample:
  "\<not> pca9685_pulse_length (\<lambda>x. x) 0 < pca9685_pulse_length (\<lambda>x. x) (45 / 2048)"
  by (simp add: pca9685_pulse_length_def float_to_uint16_def pca9685_max_pwm_value_def)

subsection \<open>Commands\<close>

lemma pca9685_pulse_length_90:
  assumes "rnd (1 / 2) = 1 / 2" and "rnd (4095 / 2) = 4095 / 2"
  shows "pca9685_pulse_length rnd 90 = 2047"
proof -
  have half: "(90 :: real) / 180 = 1 / 2" and prod: "(1 :: real) / 2 * 4095 = 4095 / 2"
    by simp_all
  have max: "real (unat pca9685_max_pwm_value) = 4095"
    by (simp add: pca9685_max_pwm_value_def)
  have trunc: "float_to_uint16 (4095 / 2) = 2047"
    by (simp add: float_to_uint16_def)
  show ?thesis
    unfolding pca9685_pulse_length_def max half assms(1) prod assms(2) by (rule trunc)
qed

lemma pca9685_set_angle_boards_scan:
  "pca9685_set_angle_boards H rnd port reg cur motor_mask target_id angle tr =
     (case pca9685_init_scan cur target_id of
        None \<Rightarrow> (ESP_ERR_NOT_FOUND, tr)
      | Some b \<Rightarrow>
          if board_state b \<noteq> H k_pca9685_ready then (ESP_FAIL, tr)
          else pca9685_set_angle_channels H port reg b (pca9685_pulse_length rnd angle) motor_mask 0 tr)"
  by (induction cur) simp_all

lemma pca9685_set_angle_channels_mask_9:
  assumes "\<forall>h c. fst (port h c) = ESP_OK"
  shows "pca9685_set_angle_channels H port reg b 2047 9 0 tr =
     (ESP_OK, tr @ map (\<lambda>c. (c, reg))
        [priv_i2c_write_byte (H k_pca9685_channel0_on_l_cmd) (board_i2c_bus b),
         priv_i2c_write_byte 0xFF (board_i2c_bus b),
         priv_i2c_write_byte 0x07 (board_i2c_bus b),
         priv_i2c_write_byte (H k_pca9685_channel0_on_l_cmd + 12) (board_i2c_bus b),
         priv_i2c_write_byte 0xFF (board_i2c_bus b),
         priv_i2c_write_byte 0x07 (board_i2c_bus b)])"
  using assms
  by (simp add: pca9685_set_angle_channels.simps pca9685_set_channel_def i2c_def Let_def case_prod_beta)

text \<open>
  The command for the channels 0 and 3 (mask 9) at angle 90, for a list whose first board
  with id 1 is ready, when the bound check on the head passes, every bus write succeeds and
  the floats 1/2 and 4095/2 are representable: six bus writes to that board.
\<close>

lemma pca9685_set_angle_mask_9_angle_90:
  assumes "reg = head # rest" and "1 < num_boards head"
    and "pca9685_init_scan reg 1 = Some b" and "board_state b = H k_pca9685_ready"
    and "\<forall>h c. fst (port h c) = ESP_OK"
    and "rnd (1 / 2) = 1 / 2" and "rnd (4095 / 2) = 4095 / 2"
  shows "pca9685_set_angle H rnd port reg 0x0009 1 90 tr =
     (ESP_OK, tr @ map (\<lambda>c. (c, reg))
        [priv_i2c_write_byte (H k_pca9685_channel0_on_l_cmd) (board_i2c_bus b),
         priv_i2c_write_byte 0xFF (board_i2c_bus b),
         priv_i2c_write_byte 0x07 (board_i2c_bus b),
         priv_i2c_write_byte (H k_pca9685_channel0_on_l_cmd + 12) (board_i2c_bus b),
         priv_i2c_write_byte 0xFF (board_i2c_bus b),
         priv_i2c_write_byte 0x07 (board_i2c_bus b)])"
proof -
  from assms(2) have "\<not> num_boards head \<le> 1"
    by (simp add: not_le)
  with assms(1) have "pca9685_set_angle H rnd port reg 0x0009 1 90 tr =
      pca9685_set_angle_boards H rnd port reg reg 0x0009 1 90 tr"
    by (simp add: pca9685_set_angle_def del: pca9685_set_angle_boards.simps)
  also from assms(3,4) have "\<dots> = pca9685_set_angle_channels H port reg b (pca9685_pulse_length rnd 90) 9 0 tr"
    by (simp add: pca9685_set_angle_boards_scan)
  also have "\<dots> = pca9685_set_angle_channels H port reg b 2047 9 0 tr"
    by (simp only: pca9685_pulse_length_90 [OF assms(6,7)])
  finally show ?thesis
    by (simp only: pca9685_set_angle_channels_mask_9 [OF assms(5)])
qed

text \<open>
  C8, where the driver departs from it. With the boards 2, 1 and 0 at the addresses
  \<open>0x42\<close>, \<open>0x41\<close> and \<open>0x40\<close>, all ready, and every bus write succeeding, the command for
  board 1, channels 0 and 3, angle 90 returns \<open>ESP_OK\<close> after exactly six single-byte writes
  to board 1: for channel 0 the register command \<open>0x06\<close>, then \<open>0xFF\<close> and \<open>0x07\<close>, the low
  and the high byte of the pulse length 2047; for channel 3 the register command \<open>0x12\<close>,
  then the same two bytes. No other channel is written, and no write carries the ON time:
  the value 0 is never sent, though the source says at line 149 that the ON time is set to 0.
\<close>

theorem pca9685_set_angle_on_time_not_sent:
  "pca9685_set_angle pca9685_registers (\<lambda>x. x) (\<lambda>h c. (ESP_OK, \<lambda>i. 0)) pca9685_three_boards
      0x0009 1 90 [] =
     (ESP_OK, map (\<lambda>c. (c, pca9685_three_boards))
        [priv_i2c_write_byte 0x06 0x41, priv_i2c_write_byte 0xFF 0x41, priv_i2c_write_byte 0x07 0x41,
         priv_i2c_write_byte 0x12 0x41, priv_i2c_write_byte 0xFF 0x41, priv_i2c_write_byte 0x07 0x41]) \<and>
   priv_i2c_write_byte 0 0x41 \<notin> fst ` set (snd (pca9685_set_angle pca9685_registers (\<lambda>x. x)
      (\<lambda>h c. (ESP_OK, \<lambda>i. 0)) pca9685_three_boards 0x0009 1 90 []))"
proof -
  have "pca9685_set_angle pca9685_registers (\<lambda>x. x) (\<lambda>h c. (ESP_OK, \<lambda>i. 0)) pca9685_three_boards
      0x0009 1 90 [] =
     (ESP_OK, map (\<lambda>c. (c, pca9685_three_boards))
        [priv_i2c_write_byte 0x06 0x41, priv_i2c_write_byte 0xFF 0x41, priv_i2c_write_byte 0x07 0x41,
         priv_i2c_write_byte 0x12 0x41, priv_i2c_write_byte 0xFF 0x41, priv_i2c_write_byte 0x07 0x41])"
    using pca9685_set_angle_mask_9_angle_90 [where H = pca9685_registers and rnd = "\<lambda>x. x"
      and port = "\<lambda>h c. (ESP_OK, \<lambda>i. 0)" and reg = pca9685_three_boards
      and head = "\<lparr>board_i2c_bus = 0x42, board_state = 0x00, board_id = 2, num_boards = 3\<rparr>"
      and rest = "[\<lparr>board_i2c_bus = 0x41, board_state = 0x00, board_id = 1, num_boards = 3\<rparr>,
                   \<lparr>board_i2c_bus = 0x40, board_state = 0x00, board_id = 0, num_boards = 3\<rparr>]"
      and b = "\<lparr>board_i2c_bus = 0x41, board_state = 0x00, board_id = 1, num_boards = 3\<rparr>"
      and tr = "[]"]
    by (simp add: pca9685_three_boards_def pca9685_registers_def)
  then show ?thesis
    by simp
qed

text \<open>
  C9, as amended. A command for an id that no board of the list has makes no bus call and
  returns an error: \<open>ESP_ERR_INVALID_ARG\<close> when the list is empty or the id is not below the
  count stored in the head of the list, and \<open>ESP_ERR_NOT_FOUND\<close> otherwise.
\<close>

theorem pca9685_set_angle_absent:
  assumes "target_id \<notin> board_id ` set reg"
  shows "pca9685_set_angle H rnd port reg motor_mask target_id angle tr =
     (if reg = [] \<or> num_boards (hd reg) \<le> target_id then ESP_ERR_INVALID_ARG else ESP_ERR_NOT_FOUND, tr)"
proof -
  from assms have "pca9685_init_scan reg target_id = None"
    by (simp add: pca9685_init_scan_None)
  then have "pca9685_set_angle_boards H rnd port reg reg motor_mask target_id angle tr =
      (ESP_ERR_NOT_FOUND, tr)"
    by (simp add: pca9685_set_angle_boards_scan)
  then show ?thesis
    by (cases reg) (simp_all add: pca9685_set_angle_def)
qed

theorem pca9685_set_angle_absent_witness:
  "pca9685_set_angle pca9685_registers (\<lambda>x. x) (\<lambda>h c. (ESP_OK, \<lambda>i. 0))
      [\<lparr>board_i2c_bus = 0x40, board_state = 0x00, board_id = 0, num_boards = 3\<rparr>] 0xFFFF 1 90 [] =
     (ESP_ERR_NOT_FOUND, [])"
  using pca9685_set_angle_absent [where H = pca9685_registers and rnd = "\<lambda>x. x"
      and port = "\<lambda>h c. (ESP_OK, \<lambda>i. 0)" and target_id = 1 and motor_mask = "0xFFFF" and angle = 90
      and reg = "[\<lparr>board_i2c_bus = 0x40, board_state = 0x00, board_id = 0, num_boards = 3\<rparr>]"
      and tr = "[]"]
  by (simp add: word_le_nat_alt)

text \<open>
  C9 as stated fails: with the boards 0, 1 and 2 in the list, a command for the id 5 returns
  \<open>ESP_ERR_INVALID_ARG\<close>, not \<open>ESP_ERR_NOT_FOUND\<close>.
\<close>

theorem pca9685_set_angle_absent_counterexample:
  "5 \<notin> board_id ` set pca9685_three_boards \<and>
   pca9685_set_angle pca9685_registers (\<lambda>x. x) (\<lambda>h c. (ESP_OK, \<lambda>i. 0)) pca9685_three_boards 0xFFFF 5 90 [] =
     (ESP_ERR_INVALID_ARG, []) \<and>
   ESP_ERR_INVALID_ARG \<noteq> ESP_ERR_NOT_FOUND"
  by (simp add: pca9685_set_angle_def pca9685_three_boards_def ESP_ERR_INVALID_ARG_def ESP_ERR_NOT_FOUND_def)

end
